theory Spec2Isabelle
  imports Main "HOL-Library.Multiset"
begin

section \<open>Inventory backend: data model\<close>

text \<open>
  The ledger store holds three tables: materials, logs and bin transactions. A table is a
  list of rows in insertion order. Timestamps are clock readings, modelled as natural
  numbers. A string is the list of its UTF-16 code units, each a natural number; \<open>lit\<close>
  gives the code units of a string written in the program text.
\<close>

type_synonym timestamp = nat

type_synonym ustring = "nat list"

definition lit :: "string \<Rightarrow> ustring" where
  "lit s = map of_char s"

text \<open>
  Modelled from the spec: the table declarations (shared/database/schema) are not part of
  the sources at hand. The columns are those the handlers and the storage class read and
  write; \<open>code\<close> is the unique key of a material, \<open>lastUpdated\<close>, \<open>timestamp\<close> and
  \<open>createdAt\<close> are filled with the current time when a row is inserted. The quantity of
  a material is an integer column of the store: it holds the values from \<open>INT_MIN\<close> to
  \<open>INT_MAX\<close>, and the store rejects a statement that would write a value outside.
\<close>

definition INT_MIN :: int where
  "INT_MIN = - 2147483648"

definition INT_MAX :: int where
  "INT_MAX = 2147483647"

definition fitsInteger :: "int \<Rightarrow> bool" where
  "fitsInteger q = (INT_MIN \<le> q \<and> q \<le> INT_MAX)"

record Material =
  code :: ustring
  quantity :: int
  rack :: ustring
  bin :: ustring
  lastUpdated :: timestamp

record InsertMaterial =
  im_code :: ustring
  im_quantity :: int
  im_rack :: ustring
  im_bin :: ustring

text \<open>\<open>Partial<InsertMaterial>\<close> as the handlers use it: each given field overwrites.\<close>

record MaterialUpdates =
  u_quantity :: "int option"
  u_rack :: "ustring option"
  u_bin :: "ustring option"

record InsertLog =
  il_materialCode :: ustring
  il_action :: ustring
  il_quantity :: int
  il_rack :: ustring
  il_bin :: ustring
  il_enteredBy :: "ustring option"
  il_issuedBy :: "ustring option"
  il_userId :: "ustring option"

record Log =
  log_materialCode :: ustring
  log_action :: ustring
  log_quantity :: int
  log_rack :: ustring
  log_bin :: ustring
  log_enteredBy :: "ustring option"
  log_issuedBy :: "ustring option"
  log_userId :: "ustring option"
  log_balanceQty :: int
  log_timestamp :: timestamp

record InsertBinTransaction =
  it_materialCode :: ustring
  it_binLocation :: ustring
  it_receivedQty :: int
  it_issuedQty :: int
  it_balanceQty :: int
  it_personName :: "ustring option"

record BinTransaction =
  tx_materialCode :: ustring
  tx_binLocation :: ustring
  tx_receivedQty :: int
  tx_issuedQty :: int
  tx_balanceQty :: int
  tx_personName :: "ustring option"
  tx_createdAt :: timestamp

record db =
  materials :: "Material list"
  logs :: "Log list"
  binTransactions :: "BinTransaction list"

datatype exn = TypeError | UniqueViolation | OutOfRange

section \<open>The platform\<close>

text \<open>
  The handlers and the storage class call into the language runtime and the store for
  operations that rest on tables which are no code of the repository: the Unicode case
  mappings and white-space set of the runtime, the \<open>lower\<close> function of the store, and
  the order in which the store returns the rows that an \<open>ORDER BY\<close> leaves tied. They
  are parameters of the model:
  \<^item> \<open>toUpperCase\<close> and \<open>toLowerCase\<close> are the string methods of the runtime; a case
    mapping may change the length of a string;
  \<^item> \<open>isWhiteSpace\<close> says which code units \<open>trim\<close> removes;
  \<^item> \<open>lower\<close> is the function of that name of the store;
  \<^item> \<open>orderMaterials\<close>, \<open>orderLogs\<close> and \<open>orderBinTransactions\<close> are what the store
    returns for the rows of a table under \<open>ORDER BY\<close> its time column \<open>DESC\<close>;
  \<^item> \<open>scanMaterials\<close> is what the store returns for rows selected without an
    \<open>ORDER BY\<close>.
\<close>

record platform =
  toUpperCase :: "ustring \<Rightarrow> ustring"
  toLowerCase :: "ustring \<Rightarrow> ustring"
  isWhiteSpace :: "nat \<Rightarrow> bool"
  lower :: "ustring \<Rightarrow> ustring"
  orderMaterials :: "Material list \<Rightarrow> Material list"
  orderLogs :: "Log list \<Rightarrow> Log list"
  orderBinTransactions :: "BinTransaction list \<Rightarrow> BinTransaction list"
  scanMaterials :: "Material list \<Rightarrow> Material list"


text \<open>A string of decimal digits has no case: the upper-case mapping returns it.\<close>

definition isDigit :: "nat \<Rightarrow> bool" where
  "isDigit c = (48 \<le> c \<and> c \<le> 57)"

definition keepsDigits :: "platform \<Rightarrow> bool" where
  "keepsDigits p = (\<forall>s. (\<forall>c \<in> set s. isDigit c) \<longrightarrow> toUpperCase p s = s)"

section \<open>String operations of the host language\<close>

definition trim :: "platform \<Rightarrow> ustring \<Rightarrow> ustring" where
  "trim p s = rev (dropWhile (isWhiteSpace p) (rev (dropWhile (isWhiteSpace p) s)))"

definition startsWith :: "ustring \<Rightarrow> ustring \<Rightarrow> bool" where
  "startsWith s pat = (take (length pat) s = pat)"

fun includes_str :: "ustring \<Rightarrow> ustring \<Rightarrow> bool" where
  "includes_str [] pat = (pat = [])"
| "includes_str (c # cs) pat = (startsWith (c # cs) pat \<or> includes_str cs pat)"

text \<open>\<open>s.replace(pat, r)\<close> with a string pattern: the first occurrence only.\<close>

fun replace :: "ustring \<Rightarrow> ustring \<Rightarrow> ustring \<Rightarrow> ustring" where
  "replace [] pat r = (if pat = [] then r else [])"
| "replace (c # cs) pat r =
     (if startsWith (c # cs) pat then r @ drop (length pat) (c # cs) else c # replace cs pat r)"

text \<open>\<open>s.split(sep)\<close> for a separator of one code unit: never an empty list.\<close>

fun split :: "ustring \<Rightarrow> nat \<Rightarrow> ustring list" where
  "split [] sep = [[]]"
| "split (c # cs) sep =
     (if c = sep then [] # split cs sep
      else (case split cs sep of [] \<Rightarrow> [[c]] | x # xs \<Rightarrow> (c # x) # xs))"

text \<open>Reading an array element: \<open>undefined\<close> out of range.\<close>

definition at :: "'a list \<Rightarrow> nat \<Rightarrow> 'a option" where
  "at xs i = (if i < length xs then Some (xs ! i) else None)"

section \<open>Pattern matching of the store\<close>

text \<open>
  SQL \<open>LIKE\<close>: the pattern has to match the whole string; \<open>%\<close> stands for any run of
  characters, \<open>_\<close> for any one character, and a backslash takes the next character
  literally. The store rejects a pattern that ends in a lone backslash; the patterns
  built below end in \<open>%\<close>, and \<open>like\<close> gives no match there.
\<close>

fun like :: "ustring \<Rightarrow> ustring \<Rightarrow> bool" where
  "like s [] = (s = [])"
| "like s (c # cs) =
     (if c = of_char CHR ''%'' then
        (case s of [] \<Rightarrow> like [] cs | x # xs \<Rightarrow> like (x # xs) cs \<or> like xs (c # cs))
      else if c = of_char CHR ''_'' then
        (case s of [] \<Rightarrow> False | x # xs \<Rightarrow> like xs cs)
      else if c = of_char CHR 0x5C then
        (case cs of [] \<Rightarrow> False
         | q # qs \<Rightarrow> (case s of [] \<Rightarrow> False | x # xs \<Rightarrow> x = q \<and> like xs qs))
      else
        (case s of [] \<Rightarrow> False | x # xs \<Rightarrow> x = c \<and> like xs cs))"

section \<open>The storage class\<close>

text \<open>
  \<open>getMaterials\<close>: the search term is optional, and an empty term counts as absent. A term
  with both markers is cut at the hyphens; reading the second piece of a term without a
  hyphen gives \<open>undefined\<close>, and calling \<open>replace\<close> on it throws a \<open>TypeError\<close>. The last
  query has no \<open>ORDER BY\<close>.
\<close>

definition getMaterials :: "platform \<Rightarrow> ustring option \<Rightarrow> db \<Rightarrow> exn + Material list" where
  "getMaterials p search d =
     (case search of
        None \<Rightarrow> Inr (orderMaterials p (materials d))
      | Some s \<Rightarrow>
          if s = [] then Inr (orderMaterials p (materials d))
          else if includes_str s (lit ''rack:'') \<and> includes_str s (lit ''bin:'') then
            (let parts = split s (of_char CHR ''-'') in
             case at parts 0 of
               None \<Rightarrow> Inl TypeError
             | Some p0 \<Rightarrow>
                 (let rackVal = toLowerCase p (trim p (replace p0 (lit ''rack:'') [])) in
                  case at parts 1 of
                    None \<Rightarrow> Inl TypeError
                  | Some p1 \<Rightarrow>
                      (let binVal = toLowerCase p (trim p (replace p1 (lit ''bin:'') [])) in
                       Inr (orderMaterials p
                         (filter (\<lambda>m. lower p (rack m) = rackVal \<and>
                                       lower p (bin m) = binVal) (materials d))))))
          else if startsWith s (lit ''rack:'') then
            (case at (split s (of_char CHR '':'')) 1 of
               None \<Rightarrow> Inl TypeError
             | Some v \<Rightarrow>
                 (let rackVal = toLowerCase p (trim p v);
                      pattern = rackVal @ lit ''%''
                  in Inr (orderMaterials p
                       (filter (\<lambda>m. like (lower p (rack m)) pattern) (materials d)))))
          else
            (let searchPattern = lit ''%'' @ s @ lit ''%'' in
             Inr (scanMaterials p (filter (\<lambda>m.
                    like (lower p (code m)) (lower p searchPattern) \<or>
                    like (lower p (rack m)) (lower p searchPattern) \<or>
                    like (lower p (bin m)) (lower p searchPattern) \<or>
                    like (lower p (rack m @ lit ''-'' @ bin m)) (lower p searchPattern))
                  (materials d)))))"

definition getMaterialByCode :: "ustring \<Rightarrow> db \<Rightarrow> Material option" where
  "getMaterialByCode c d = find (\<lambda>m. code m = c) (materials d)"

text \<open>
  An insert with a quantity outside the integer column is rejected, and so is an insert
  of a code that is already there (the unique key).
\<close>

definition createMaterial :: "InsertMaterial \<Rightarrow> timestamp \<Rightarrow> db \<Rightarrow> exn + Material \<times> db" where
  "createMaterial insertMaterial now d =
     (if \<not> fitsInteger (im_quantity insertMaterial) then Inl OutOfRange
      else if \<exists>m \<in> set (materials d). code m = im_code insertMaterial then Inl UniqueViolation
      else
        (let material = \<lparr>code = im_code insertMaterial, quantity = im_quantity insertMaterial,
                         rack = im_rack insertMaterial, bin = im_bin insertMaterial,
                         lastUpdated = now\<rparr>
         in Inr (material, d\<lparr>materials := materials d @ [material]\<rparr>)))"

definition applyUpdates :: "MaterialUpdates \<Rightarrow> timestamp \<Rightarrow> Material \<Rightarrow> Material" where
  "applyUpdates updates now m =
     m\<lparr>quantity := (case u_quantity updates of None \<Rightarrow> quantity m | Some q \<Rightarrow> q),
       rack := (case u_rack updates of None \<Rightarrow> rack m | Some r \<Rightarrow> r),
       bin := (case u_bin updates of None \<Rightarrow> bin m | Some b \<Rightarrow> b),
       lastUpdated := now\<rparr>"

text \<open>
  \<open>updateMaterial\<close> returns the first updated row, \<open>undefined\<close> when no row has the code.
  An update that sets a quantity outside the integer column is rejected as a whole.
\<close>

definition updateMaterial ::
  "ustring \<Rightarrow> MaterialUpdates \<Rightarrow> timestamp \<Rightarrow> db \<Rightarrow> exn + Material option \<times> db" where
  "updateMaterial c updates now d =
     (if (case u_quantity updates of None \<Rightarrow> False | Some q \<Rightarrow> \<not> fitsInteger q)
      then Inl OutOfRange
      else
        (let rows = map (\<lambda>m. if code m = c then applyUpdates updates now m else m) (materials d)
         in Inr (find (\<lambda>m. code m = c) rows, d\<lparr>materials := rows\<rparr>)))"

definition deleteMaterial :: "ustring \<Rightarrow> db \<Rightarrow> db" where
  "deleteMaterial c d = d\<lparr>materials := filter (\<lambda>m. code m \<noteq> c) (materials d)\<rparr>"

definition resetInventory :: "timestamp \<Rightarrow> db \<Rightarrow> db" where
  "resetInventory now d =
     d\<lparr>materials := map (\<lambda>m. m\<lparr>quantity := 0, lastUpdated := now\<rparr>) (materials d)\<rparr>"

definition createLog :: "InsertLog \<Rightarrow> timestamp \<Rightarrow> db \<Rightarrow> Log \<times> db" where
  "createLog insertLog now d =
     (let material = getMaterialByCode (il_materialCode insertLog) d;
          balanceQty = (case material of Some m \<Rightarrow> quantity m | None \<Rightarrow> 0);
          log = \<lparr>log_materialCode = il_materialCode insertLog,
                 log_action = il_action insertLog,
                 log_quantity = il_quantity insertLog,
                 log_rack = il_rack insertLog,
                 log_bin = il_bin insertLog,
                 log_enteredBy = il_enteredBy insertLog,
                 log_issuedBy = il_issuedBy insertLog,
                 log_userId = il_userId insertLog,
                 log_balanceQty = balanceQty,
                 log_timestamp = now\<rparr>
      in (log, d\<lparr>logs := logs d @ [log]\<rparr>))"

definition getLogs :: "platform \<Rightarrow> nat \<Rightarrow> db \<Rightarrow> Log list" where
  "getLogs p limit d = take limit (orderLogs p (logs d))"

definition clearLogs :: "db \<Rightarrow> db" where
  "clearLogs d = d\<lparr>logs := []\<rparr>"

definition createBinTransaction ::
  "InsertBinTransaction \<Rightarrow> timestamp \<Rightarrow> db \<Rightarrow> BinTransaction \<times> db" where
  "createBinTransaction transaction now d =
     (let newTransaction = \<lparr>tx_materialCode = it_materialCode transaction,
                            tx_binLocation = it_binLocation transaction,
                            tx_receivedQty = it_receivedQty transaction,
                            tx_issuedQty = it_issuedQty transaction,
                            tx_balanceQty = it_balanceQty transaction,
                            tx_personName = it_personName transaction,
                            tx_createdAt = now\<rparr>
      in (newTransaction, d\<lparr>binTransactions := binTransactions d @ [newTransaction]\<rparr>))"

definition getBinTransactions :: "platform \<Rightarrow> ustring \<Rightarrow> db \<Rightarrow> BinTransaction list" where
  "getBinTransactions p materialCode d =
     orderBinTransactions p
       (filter (\<lambda>t. tx_materialCode t = materialCode) (binTransactions d))"

section \<open>The route handlers\<close>

text \<open>
  A handler runs on the parsed request body and the store, and ends in a response (status
  and JSON body) or in an exception that is not caught; the store it leaves behind is
  returned in both cases. A handler reads the clock once for each row it writes: \<open>clk 0\<close>
  is the reading for the material row, \<open>clk 1\<close> for the log and \<open>clk 2\<close> for the bin
  transaction.

  The handlers add and subtract quantities as numbers of the runtime, which are exact on
  the integers up to \<open>2^53\<close>, and hand the result to the store. A stored quantity lies in
  the integer column, so a result inside the column is the exact one, and a result
  outside is rejected by the store whatever rounding did to it; the model computes on
  integers and leaves the range check to \<open>createMaterial\<close> and \<open>updateMaterial\<close>.
  The log and the bin transaction repeat the requested quantity and the new balance. For
  a request that passed the request schema on a stock that is not negative, these lie in
  the column whenever the new quantity does (lemma \<open>requested_quantity_fits\<close>), so the
  range check of these two inserts is never the one that fails, and the model leaves it
  out.
\<close>

record EntryInput =
  e_materialCode :: ustring
  e_quantity :: int
  e_rack :: ustring
  e_bin :: ustring
  e_enteredBy :: "ustring option"

record IssueInput =
  i_materialCode :: ustring
  i_quantity :: int
  i_rack :: ustring
  i_bin :: ustring
  i_issuedBy :: "ustring option"

datatype json = JsonMaterial "Material option" | JsonMessage ustring

datatype outcome = Response nat json | Threw exn

type_synonym clock = "nat \<Rightarrow> timestamp"

text \<open>
  Modelled from the spec: the request schemas (shared/database/routes) are not part of the
  sources at hand. A body passes when the material code, the rack and the bin are not
  empty and the quantity is a positive integer; any other body is answered with status 400
  before the handler touches the store. The recognized location vocabulary makes a bin a
  code of two decimal digits.
\<close>

definition validEntry :: "EntryInput \<Rightarrow> bool" where
  "validEntry input =
     (e_materialCode input \<noteq> [] \<and> 0 < e_quantity input \<and> e_rack input \<noteq> [] \<and> e_bin input \<noteq> [])"

definition validIssue :: "IssueInput \<Rightarrow> bool" where
  "validIssue input =
     (i_materialCode input \<noteq> [] \<and> 0 < i_quantity input \<and> i_rack input \<noteq> [] \<and> i_bin input \<noteq> [])"

definition binCode :: "ustring \<Rightarrow> bool" where
  "binCode s = (length s = 2 \<and> (\<forall>c \<in> set s. isDigit c))"

subsection \<open>The strict variant (client/src/frontend/server/backend/routes.ts)\<close>

definition entry_strict :: "clock \<Rightarrow> EntryInput \<Rightarrow> db \<Rightarrow> outcome \<times> db" where
  "entry_strict clk input d =
     (let existing = getMaterialByCode (e_materialCode input) d in
      case (case existing of
              Some e \<Rightarrow>
                updateMaterial (e_materialCode input)
                  \<lparr>u_quantity = Some (quantity e + e_quantity input),
                   u_rack = Some (e_rack input), u_bin = Some (e_bin input)\<rparr> (clk 0) d
            | None \<Rightarrow>
                (case createMaterial
                        \<lparr>im_code = e_materialCode input, im_quantity = e_quantity input,
                         im_rack = e_rack input, im_bin = e_bin input\<rparr> (clk 0) d of
                   Inl x \<Rightarrow> Inl x
                 | Inr (created, d1) \<Rightarrow> Inr (Some created, d1))) of
        Inl x \<Rightarrow> (Threw x, d)
      | Inr (material, d1) \<Rightarrow>
          (let (log, d2) = createLog
                 \<lparr>il_materialCode = e_materialCode input, il_action = lit ''entry'',
                  il_quantity = e_quantity input, il_rack = e_rack input, il_bin = e_bin input,
                  il_enteredBy = e_enteredBy input, il_issuedBy = None,
                  il_userId = Some (lit ''system'')\<rparr> (clk 1) d1
           in case material of
                None \<Rightarrow> (Threw TypeError, d2)
              | Some m \<Rightarrow>
                  (let (tx, d3) = createBinTransaction
                         \<lparr>it_materialCode = e_materialCode input,
                          it_binLocation = e_rack input @ lit ''-'' @ e_bin input,
                          it_receivedQty = e_quantity input, it_issuedQty = 0,
                          it_balanceQty = quantity m,
                          it_personName = e_enteredBy input\<rparr> (clk 2) d2
                   in (Response (if existing \<noteq> None then 200 else 201) (JsonMaterial material),
                       d3))))"

definition locationMismatch :: "Material \<Rightarrow> json" where
  "locationMismatch existing =
     JsonMessage (lit ''Material is not in the specified location. Current location: Rack '' @
                  rack existing @ lit '', Bin '' @ bin existing)"

definition issue_strict :: "platform \<Rightarrow> clock \<Rightarrow> IssueInput \<Rightarrow> db \<Rightarrow> outcome \<times> db" where
  "issue_strict p clk input d =
     (case getMaterialByCode (i_materialCode input) d of
        None \<Rightarrow> (Response 404 (JsonMessage (lit ''Material not found'')), d)
      | Some existing \<Rightarrow>
          if toUpperCase p (rack existing) \<noteq> toUpperCase p (i_rack input) \<or>
             bin existing \<noteq> i_bin input
          then (Response 400 (locationMismatch existing), d)
          else if quantity existing < i_quantity input
          then (Response 400 (JsonMessage (lit ''Insufficient quantity'')), d)
          else
            (case updateMaterial (i_materialCode input)
                    \<lparr>u_quantity = Some (quantity existing - i_quantity input),
                     u_rack = None, u_bin = None\<rparr> (clk 0) d of
               Inl x \<Rightarrow> (Threw x, d)
             | Inr (material, d1) \<Rightarrow>
                 (let (log, d2) = createLog
                        \<lparr>il_materialCode = i_materialCode input, il_action = lit ''issue'',
                         il_quantity = i_quantity input, il_rack = i_rack input,
                         il_bin = i_bin input, il_enteredBy = None,
                         il_issuedBy = i_issuedBy input,
                         il_userId = Some (lit ''system'')\<rparr> (clk 1) d1
                  in case material of
                       None \<Rightarrow> (Threw TypeError, d2)
                     | Some m \<Rightarrow>
                         (let (tx, d3) = createBinTransaction
                                \<lparr>it_materialCode = i_materialCode input,
                                 it_binLocation = i_rack input @ lit ''-'' @ i_bin input,
                                 it_receivedQty = 0, it_issuedQty = i_quantity input,
                                 it_balanceQty = quantity m,
                                 it_personName = i_issuedBy input\<rparr> (clk 2) d2
                          in (Response 200 (JsonMaterial material), d3)))))"

subsection \<open>The simple variant (server/routes.ts)\<close>

text \<open>
  Modelled from the spec: the storage module that the simple variant imports
  (server/storage.ts) is not part of the sources at hand. The spec describes one ledger
  store for both variants, so the simple handlers run on the storage class above.
\<close>

definition entry_simple :: "clock \<Rightarrow> EntryInput \<Rightarrow> db \<Rightarrow> outcome \<times> db" where
  "entry_simple clk input d =
     (let existing = getMaterialByCode (e_materialCode input) d in
      case (case existing of
              Some e \<Rightarrow>
                updateMaterial (e_materialCode input)
                  \<lparr>u_quantity = Some (quantity e + e_quantity input),
                   u_rack = Some (e_rack input), u_bin = Some (e_bin input)\<rparr> (clk 0) d
            | None \<Rightarrow>
                (case createMaterial
                        \<lparr>im_code = e_materialCode input, im_quantity = e_quantity input,
                         im_rack = e_rack input, im_bin = e_bin input\<rparr> (clk 0) d of
                   Inl x \<Rightarrow> Inl x
                 | Inr (created, d1) \<Rightarrow> Inr (Some created, d1))) of
        Inl x \<Rightarrow> (Threw x, d)
      | Inr (material, d1) \<Rightarrow>
          (let (log, d2) = createLog
                 \<lparr>il_materialCode = e_materialCode input, il_action = lit ''entry'',
                  il_quantity = e_quantity input, il_rack = e_rack input, il_bin = e_bin input,
                  il_enteredBy = None, il_issuedBy = None,
                  il_userId = Some (lit ''system'')\<rparr> (clk 1) d1
           in (Response (if existing \<noteq> None then 200 else 201) (JsonMaterial material), d2)))"

definition issue_simple :: "clock \<Rightarrow> IssueInput \<Rightarrow> db \<Rightarrow> outcome \<times> db" where
  "issue_simple clk input d =
     (case getMaterialByCode (i_materialCode input) d of
        None \<Rightarrow> (Response 404 (JsonMessage (lit ''Material not found'')), d)
      | Some existing \<Rightarrow>
          if quantity existing < i_quantity input
          then (Response 400 (JsonMessage (lit ''Insufficient quantity'')), d)
          else
            (case updateMaterial (i_materialCode input)
                    \<lparr>u_quantity = Some (quantity existing - i_quantity input),
                     u_rack = None, u_bin = None\<rparr> (clk 0) d of
               Inl x \<Rightarrow> (Threw x, d)
             | Inr (material, d1) \<Rightarrow>
                 (let (log, d2) = createLog
                        \<lparr>il_materialCode = i_materialCode input, il_action = lit ''issue'',
                         il_quantity = i_quantity input, il_rack = i_rack input,
                         il_bin = i_bin input, il_enteredBy = None,
                         il_issuedBy = i_issuedBy input,
                         il_userId = Some (lit ''system'')\<rparr> (clk 1) d1
                  in (Response 200 (JsonMaterial material), d2))))"

subsection \<open>Seeding at start-up\<close>

text \<open>Both variants insert three materials into an empty store; a rejected insert ends
  the seeding. The simple variant then logs the first entry.\<close>

definition seedMaterials :: "clock \<Rightarrow> db \<Rightarrow> exn + db" where
  "seedMaterials clk d =
     (case createMaterial \<lparr>im_code = lit ''TRIM-001'', im_quantity = 100, im_rack = lit ''A1'',
                            im_bin = lit ''01''\<rparr> (clk 0) d of
        Inl x \<Rightarrow> Inl x
      | Inr (m1, d1) \<Rightarrow>
          (case createMaterial \<lparr>im_code = lit ''TRIM-002'', im_quantity = 50,
                                im_rack = lit ''B2'', im_bin = lit ''15''\<rparr> (clk 1) d1 of
             Inl x \<Rightarrow> Inl x
           | Inr (m2, d2) \<Rightarrow>
               (case createMaterial \<lparr>im_code = lit ''BUTTON-X'', im_quantity = 500,
                                     im_rack = lit ''C1'', im_bin = lit ''84''\<rparr> (clk 2) d2 of
                  Inl x \<Rightarrow> Inl x
                | Inr (m3, d3) \<Rightarrow> Inr d3)))"

definition seed_strict :: "platform \<Rightarrow> clock \<Rightarrow> db \<Rightarrow> exn + db" where
  "seed_strict p clk d =
     (case getMaterials p None d of
        Inl x \<Rightarrow> Inl x
      | Inr existing \<Rightarrow> if length existing = 0 then seedMaterials clk d else Inr d)"

definition seed_simple :: "platform \<Rightarrow> clock \<Rightarrow> db \<Rightarrow> exn + db" where
  "seed_simple p clk d =
     (case getMaterials p None d of
        Inl x \<Rightarrow> Inl x
      | Inr existing \<Rightarrow>
          if length existing = 0 then
            (case seedMaterials clk d of
               Inl x \<Rightarrow> Inl x
             | Inr d3 \<Rightarrow>
                 Inr (snd (createLog
                   \<lparr>il_materialCode = lit ''TRIM-001'', il_action = lit ''entry'',
                    il_quantity = 100, il_rack = lit ''A1'', il_bin = lit ''01'',
                    il_enteredBy = None, il_issuedBy = None,
                    il_userId = Some (lit ''system'')\<rparr> (clk 3) d3)))
          else Inr d)"

section \<open>Runs of the service\<close>

text \<open>
  The requests that change the store. An entry or issue body that does not pass the
  request schema is rejected and leaves the store as it is.
\<close>

datatype request =
    Entry clock EntryInput
  | Issue clock IssueInput
  | DeleteMaterial ustring
  | ResetInventory timestamp
  | ClearLogs

fun step_strict :: "platform \<Rightarrow> request \<Rightarrow> db \<Rightarrow> db" where
  "step_strict p (Entry clk input) d =
     (if validEntry input then snd (entry_strict clk input d) else d)"
| "step_strict p (Issue clk input) d =
     (if validIssue input then snd (issue_strict p clk input d) else d)"
| "step_strict p (DeleteMaterial c) d = deleteMaterial c d"
| "step_strict p (ResetInventory now) d = resetInventory now d"
| "step_strict p ClearLogs d = clearLogs d"

fun step_simple :: "request \<Rightarrow> db \<Rightarrow> db" where
  "step_simple (Entry clk input) d = (if validEntry input then snd (entry_simple clk input d) else d)"
| "step_simple (Issue clk input) d = (if validIssue input then snd (issue_simple clk input d) else d)"
| "step_simple (DeleteMaterial c) d = deleteMaterial c d"
| "step_simple (ResetInventory now) d = resetInventory now d"
| "step_simple ClearLogs d = clearLogs d"

fun run :: "(request \<Rightarrow> db \<Rightarrow> db) \<Rightarrow> request list \<Rightarrow> db \<Rightarrow> db" where
  "run step [] d = d"
| "run step (r # rs) d = run step rs (step r d)"

definition emptyStore :: db where
  "emptyStore = \<lparr>materials = [], logs = [], binTransactions = []\<rparr>"

text \<open>The store after start-up: what the seeding left, also when it was cut short.\<close>

definition started :: "(clock \<Rightarrow> db \<Rightarrow> exn + db) \<Rightarrow> clock \<Rightarrow> db" where
  "started seed clk = (case seed clk emptyStore of Inl x \<Rightarrow> emptyStore | Inr d \<Rightarrow> d)"

definition quantitiesNonNegative :: "db \<Rightarrow> bool" where
  "quantitiesNonNegative d = (\<forall>m \<in> set (materials d). 0 \<le> quantity m)"

text \<open>
  The bins of the store are in the location vocabulary; a request keeps them there when
  the bin that it may write is in the vocabulary.
\<close>

definition binsInVocabulary :: "db \<Rightarrow> bool" where
  "binsInVocabulary d = (\<forall>m \<in> set (materials d). binCode (bin m))"

fun entersBinCode :: "request \<Rightarrow> bool" where
  "entersBinCode (Entry clk input) = binCode (e_bin input)"
| "entersBinCode (Issue clk input) = True"
| "entersBinCode (DeleteMaterial c) = True"
| "entersBinCode (ResetInventory now) = True"
| "entersBinCode ClearLogs = True"


fun status :: "outcome \<Rightarrow> nat option" where
  "status (Response n body) = Some n"
| "status (Threw x) = None"


text \<open>The quantity that an entry hands to the store for the material of its code.\<close>

definition quantityAfterEntry :: "EntryInput \<Rightarrow> db \<Rightarrow> int" where
  "quantityAfterEntry input d =
     (case getMaterialByCode (e_materialCode input) d of
        None \<Rightarrow> e_quantity input
      | Some existing \<Rightarrow> quantity existing + e_quantity input)"

text \<open>Comparison of two strings without regard to case.\<close>

definition equalsIgnoreCase :: "platform \<Rightarrow> ustring \<Rightarrow> ustring \<Rightarrow> bool" where
  "equalsIgnoreCase p a b = (toUpperCase p a = toUpperCase p b)"

section \<open>Sample data\<close>

text \<open>
  A platform for the examples. Its case mappings and white-space set are those of the
  runtime and the store on the ASCII range, which is all that the strings of the examples
  use, and it returns rows with equal time in table order.
\<close>

definition asciiUpper :: "ustring \<Rightarrow> ustring" where
  "asciiUpper s = map (\<lambda>c. if 97 \<le> c \<and> c \<le> 122 then c - 32 else c) s"

definition asciiLower :: "ustring \<Rightarrow> ustring" where
  "asciiLower s = map (\<lambda>c. if 65 \<le> c \<and> c \<le> 90 then c + 32 else c) s"

definition asciiSpace :: "nat \<Rightarrow> bool" where
  "asciiSpace c = ((9 \<le> c \<and> c \<le> 13) \<or> c = 32)"

definition newestFirst :: "('a \<Rightarrow> timestamp) \<Rightarrow> 'a list \<Rightarrow> 'a list" where
  "newestFirst key rows = rev (sort_key key (rev rows))"

definition asciiPlatform :: platform where
  "asciiPlatform =
     \<lparr>toUpperCase = asciiUpper, toLowerCase = asciiLower, isWhiteSpace = asciiSpace,
      lower = asciiLower, orderMaterials = newestFirst lastUpdated,
      orderLogs = newestFirst log_timestamp,
      orderBinTransactions = newestFirst tx_createdAt,
      scanMaterials = (\<lambda>rows. rows)\<rparr>"

text \<open>The three seed materials and the store that holds them.\<close>

definition trim001 :: Material where
  "trim001 = \<lparr>code = lit ''TRIM-001'', quantity = 100, rack = lit ''A1'', bin = lit ''01'',
              lastUpdated = 0\<rparr>"

definition trim002 :: Material where
  "trim002 = \<lparr>code = lit ''TRIM-002'', quantity = 50, rack = lit ''B2'', bin = lit ''15'',
              lastUpdated = 1\<rparr>"

definition buttonX :: Material where
  "buttonX = \<lparr>code = lit ''BUTTON-X'', quantity = 500, rack = lit ''C1'', bin = lit ''84'',
              lastUpdated = 2\<rparr>"

definition seeded :: db where
  "seeded = \<lparr>materials = [trim001, trim002, buttonX], logs = [], binTransactions = []\<rparr>"

section \<open>Basic facts about the storage class\<close>

lemma find_code_append:
  "find (\<lambda>m. code m = c) (xs @ ys) =
     (case find (\<lambda>m. code m = c) xs of Some m \<Rightarrow> Some m | None \<Rightarrow> find (\<lambda>m. code m = c) ys)"
  by (induction xs) auto

lemma find_code_None: "(find (\<lambda>m. code m = c) xs = None) = (\<forall>m \<in> set xs. code m \<noteq> c)"
  by (induction xs) auto

lemma code_applyUpdates [simp]: "code (applyUpdates u now m) = code m"
  by (simp add: applyUpdates_def)

lemma find_code_map_if:
  assumes "\<And>m. code (f m) = code m"
  shows "find (\<lambda>m. code m = c) (map (\<lambda>m. if code m = c then f m else m) xs) =
           map_option f (find (\<lambda>m. code m = c) xs)"
  by (induction xs) (auto simp: assms)

lemma getMaterialByCode_materials_update:
  "getMaterialByCode c (d\<lparr>materials := ms\<rparr>) = find (\<lambda>m. code m = c) ms"
  by (simp add: getMaterialByCode_def)

lemma updateMaterial_result:
  assumes "u_quantity u = Some q" and "fitsInteger q"
  shows "updateMaterial c u now d =
     Inr (map_option (applyUpdates u now) (getMaterialByCode c d),
          d\<lparr>materials := map (\<lambda>m. if code m = c then applyUpdates u now m else m)
                             (materials d)\<rparr>)"
  using assms
  by (simp add: updateMaterial_def getMaterialByCode_def Let_def find_code_map_if)

lemma updateMaterial_rejected:
  assumes "u_quantity u = Some q" and "\<not> fitsInteger q"
  shows "updateMaterial c u now d = Inl OutOfRange"
  using assms by (simp add: updateMaterial_def)

lemma createMaterial_fresh:
  assumes "getMaterialByCode (im_code im) d = None" and "fitsInteger (im_quantity im)"
  shows "createMaterial im now d =
     Inr (\<lparr>code = im_code im, quantity = im_quantity im, rack = im_rack im, bin = im_bin im,
           lastUpdated = now\<rparr>,
          d\<lparr>materials := materials d @
             [\<lparr>code = im_code im, quantity = im_quantity im, rack = im_rack im, bin = im_bin im,
               lastUpdated = now\<rparr>]\<rparr>)"
  using assms by (auto simp: createMaterial_def getMaterialByCode_def find_code_None Let_def)

lemma createMaterial_rejected:
  assumes "\<not> fitsInteger (im_quantity im)"
  shows "createMaterial im now d = Inl OutOfRange"
  using assms by (simp add: createMaterial_def)

lemma createLog_result:
  "createLog il now d =
     (\<lparr>log_materialCode = il_materialCode il, log_action = il_action il,
       log_quantity = il_quantity il, log_rack = il_rack il, log_bin = il_bin il,
       log_enteredBy = il_enteredBy il, log_issuedBy = il_issuedBy il,
       log_userId = il_userId il,
       log_balanceQty = (case getMaterialByCode (il_materialCode il) d of
                           Some m \<Rightarrow> quantity m | None \<Rightarrow> 0),
       log_timestamp = now\<rparr>,
      d\<lparr>logs := logs d @
        [\<lparr>log_materialCode = il_materialCode il, log_action = il_action il,
          log_quantity = il_quantity il, log_rack = il_rack il, log_bin = il_bin il,
          log_enteredBy = il_enteredBy il, log_issuedBy = il_issuedBy il,
          log_userId = il_userId il,
          log_balanceQty = (case getMaterialByCode (il_materialCode il) d of
                              Some m \<Rightarrow> quantity m | None \<Rightarrow> 0),
          log_timestamp = now\<rparr>]\<rparr>)"
  by (simp add: createLog_def Let_def)

lemma requested_quantity_fits:
  "0 < q \<Longrightarrow> 0 \<le> stock \<Longrightarrow> fitsInteger (stock + q) \<Longrightarrow> fitsInteger q"
  "0 < q \<Longrightarrow> q \<le> stock \<Longrightarrow> fitsInteger stock \<Longrightarrow>
     fitsInteger q \<and> fitsInteger (stock - q)"
  by (auto simp: fitsInteger_def INT_MIN_def INT_MAX_def)

lemmas handler_simps =
  createLog_result createBinTransaction_def
  getMaterialByCode_materials_update find_code_map_if applyUpdates_def Let_def
  getMaterialByCode_def

section \<open>What each handler does, case by case\<close>

lemma entry_strict_existing:
  assumes "getMaterialByCode (e_materialCode i) d = Some e"
    and "fitsInteger (quantity e + e_quantity i)"
  shows "entry_strict clk i d =
    (Response 200 (JsonMaterial (Some (e\<lparr>quantity := quantity e + e_quantity i, rack := e_rack i,
        bin := e_bin i, lastUpdated := clk 0\<rparr>))),
     d\<lparr>materials := map (\<lambda>m. if code m = e_materialCode i
                          then m\<lparr>quantity := quantity e + e_quantity i, rack := e_rack i,
                                 bin := e_bin i, lastUpdated := clk 0\<rparr>
                          else m) (materials d),
       logs := logs d @ [\<lparr>log_materialCode = e_materialCode i, log_action = lit ''entry'',
          log_quantity = e_quantity i, log_rack = e_rack i, log_bin = e_bin i,
          log_enteredBy = e_enteredBy i, log_issuedBy = None,
          log_userId = Some (lit ''system''),
          log_balanceQty = quantity e + e_quantity i, log_timestamp = clk 1\<rparr>],
       binTransactions := binTransactions d @ [\<lparr>tx_materialCode = e_materialCode i,
          tx_binLocation = e_rack i @ lit ''-'' @ e_bin i, tx_receivedQty = e_quantity i,
          tx_issuedQty = 0, tx_balanceQty = quantity e + e_quantity i,
          tx_personName = e_enteredBy i, tx_createdAt = clk 2\<rparr>]\<rparr>)"
proof -
  have "updateMaterial (e_materialCode i)
          \<lparr>u_quantity = Some (quantity e + e_quantity i), u_rack = Some (e_rack i),
           u_bin = Some (e_bin i)\<rparr> (clk 0) d =
        Inr (map_option (applyUpdates \<lparr>u_quantity = Some (quantity e + e_quantity i),
                u_rack = Some (e_rack i), u_bin = Some (e_bin i)\<rparr> (clk 0))
               (getMaterialByCode (e_materialCode i) d),
             d\<lparr>materials := map (\<lambda>m. if code m = e_materialCode i
                 then applyUpdates \<lparr>u_quantity = Some (quantity e + e_quantity i),
                        u_rack = Some (e_rack i), u_bin = Some (e_bin i)\<rparr> (clk 0) m
                 else m) (materials d)\<rparr>)"
    by (rule updateMaterial_result [OF _ assms(2)]) simp
  then show ?thesis
    using assms(1) by (simp add: entry_strict_def handler_simps)
qed

lemma entry_simple_existing:
  assumes "getMaterialByCode (e_materialCode i) d = Some e"
    and "fitsInteger (quantity e + e_quantity i)"
  shows "entry_simple clk i d =
    (Response 200 (JsonMaterial (Some (e\<lparr>quantity := quantity e + e_quantity i, rack := e_rack i,
        bin := e_bin i, lastUpdated := clk 0\<rparr>))),
     d\<lparr>materials := map (\<lambda>m. if code m = e_materialCode i
                          then m\<lparr>quantity := quantity e + e_quantity i, rack := e_rack i,
                                 bin := e_bin i, lastUpdated := clk 0\<rparr>
                          else m) (materials d),
       logs := logs d @ [\<lparr>log_materialCode = e_materialCode i, log_action = lit ''entry'',
          log_quantity = e_quantity i, log_rack = e_rack i, log_bin = e_bin i,
          log_enteredBy = None, log_issuedBy = None, log_userId = Some (lit ''system''),
          log_balanceQty = quantity e + e_quantity i, log_timestamp = clk 1\<rparr>]\<rparr>)"
proof -
  have "updateMaterial (e_materialCode i)
          \<lparr>u_quantity = Some (quantity e + e_quantity i), u_rack = Some (e_rack i),
           u_bin = Some (e_bin i)\<rparr> (clk 0) d =
        Inr (map_option (applyUpdates \<lparr>u_quantity = Some (quantity e + e_quantity i),
                u_rack = Some (e_rack i), u_bin = Some (e_bin i)\<rparr> (clk 0))
               (getMaterialByCode (e_materialCode i) d),
             d\<lparr>materials := map (\<lambda>m. if code m = e_materialCode i
                 then applyUpdates \<lparr>u_quantity = Some (quantity e + e_quantity i),
                        u_rack = Some (e_rack i), u_bin = Some (e_bin i)\<rparr> (clk 0) m
                 else m) (materials d)\<rparr>)"
    by (rule updateMaterial_result [OF _ assms(2)]) simp
  then show ?thesis
    using assms(1) by (simp add: entry_simple_def handler_simps)
qed

lemma entry_existing_rejected:
  assumes "getMaterialByCode (e_materialCode i) d = Some e"
    and "\<not> fitsInteger (quantity e + e_quantity i)"
  shows "entry_strict clk i d = (Threw OutOfRange, d)"
    and "entry_simple clk i d = (Threw OutOfRange, d)"
proof -
  have u: "updateMaterial (e_materialCode i)
          \<lparr>u_quantity = Some (quantity e + e_quantity i), u_rack = Some (e_rack i),
           u_bin = Some (e_bin i)\<rparr> (clk 0) d = Inl OutOfRange"
    by (rule updateMaterial_rejected [OF _ assms(2)]) simp
  show "entry_strict clk i d = (Threw OutOfRange, d)"
    using assms(1) u by (simp add: entry_strict_def)
  show "entry_simple clk i d = (Threw OutOfRange, d)"
    using assms(1) u by (simp add: entry_simple_def)
qed

lemma createMaterial_entry:
  assumes "getMaterialByCode (e_materialCode i) d = None" and "fitsInteger (e_quantity i)"
  shows "createMaterial \<lparr>im_code = e_materialCode i, im_quantity = e_quantity i,
          im_rack = e_rack i, im_bin = e_bin i\<rparr> (clk 0) d =
        Inr (\<lparr>code = e_materialCode i, quantity = e_quantity i, rack = e_rack i,
              bin = e_bin i, lastUpdated = clk 0\<rparr>,
             d\<lparr>materials := materials d @ [\<lparr>code = e_materialCode i, quantity = e_quantity i,
               rack = e_rack i, bin = e_bin i, lastUpdated = clk 0\<rparr>]\<rparr>)"
  using assms createMaterial_fresh [of "\<lparr>im_code = e_materialCode i,
    im_quantity = e_quantity i, im_rack = e_rack i, im_bin = e_bin i\<rparr>" d "clk 0"]
  by simp

lemma entry_strict_fresh:
  assumes "getMaterialByCode (e_materialCode i) d = None" and "fitsInteger (e_quantity i)"
  shows "entry_strict clk i d =
    (Response 201 (JsonMaterial (Some \<lparr>code = e_materialCode i, quantity = e_quantity i,
        rack = e_rack i, bin = e_bin i, lastUpdated = clk 0\<rparr>)),
     d\<lparr>materials := materials d @ [\<lparr>code = e_materialCode i, quantity = e_quantity i,
          rack = e_rack i, bin = e_bin i, lastUpdated = clk 0\<rparr>],
       logs := logs d @ [\<lparr>log_materialCode = e_materialCode i, log_action = lit ''entry'',
          log_quantity = e_quantity i, log_rack = e_rack i, log_bin = e_bin i,
          log_enteredBy = e_enteredBy i, log_issuedBy = None,
          log_userId = Some (lit ''system''),
          log_balanceQty = e_quantity i, log_timestamp = clk 1\<rparr>],
       binTransactions := binTransactions d @ [\<lparr>tx_materialCode = e_materialCode i,
          tx_binLocation = e_rack i @ lit ''-'' @ e_bin i, tx_receivedQty = e_quantity i,
          tx_issuedQty = 0, tx_balanceQty = e_quantity i,
          tx_personName = e_enteredBy i, tx_createdAt = clk 2\<rparr>]\<rparr>)"
  using assms(1) createMaterial_entry [OF assms, of clk]
  by (simp add: entry_strict_def createLog_result createBinTransaction_def
      getMaterialByCode_materials_update find_code_append Let_def)
     (simp add: getMaterialByCode_def)

lemma entry_simple_fresh:
  assumes "getMaterialByCode (e_materialCode i) d = None" and "fitsInteger (e_quantity i)"
  shows "entry_simple clk i d =
    (Response 201 (JsonMaterial (Some \<lparr>code = e_materialCode i, quantity = e_quantity i,
        rack = e_rack i, bin = e_bin i, lastUpdated = clk 0\<rparr>)),
     d\<lparr>materials := materials d @ [\<lparr>code = e_materialCode i, quantity = e_quantity i,
          rack = e_rack i, bin = e_bin i, lastUpdated = clk 0\<rparr>],
       logs := logs d @ [\<lparr>log_materialCode = e_materialCode i, log_action = lit ''entry'',
          log_quantity = e_quantity i, log_rack = e_rack i, log_bin = e_bin i,
          log_enteredBy = None, log_issuedBy = None, log_userId = Some (lit ''system''),
          log_balanceQty = e_quantity i, log_timestamp = clk 1\<rparr>]\<rparr>)"
  using assms(1) createMaterial_entry [OF assms, of clk]
  by (simp add: entry_simple_def createLog_result
      getMaterialByCode_materials_update find_code_append Let_def)
     (simp add: getMaterialByCode_def)

lemma entry_fresh_rejected:
  assumes "getMaterialByCode (e_materialCode i) d = None" and "\<not> fitsInteger (e_quantity i)"
  shows "entry_strict clk i d = (Threw OutOfRange, d)"
    and "entry_simple clk i d = (Threw OutOfRange, d)"
proof -
  have c: "createMaterial \<lparr>im_code = e_materialCode i, im_quantity = e_quantity i,
          im_rack = e_rack i, im_bin = e_bin i\<rparr> (clk 0) d = Inl OutOfRange"
    by (rule createMaterial_rejected) (simp add: assms(2))
  show "entry_strict clk i d = (Threw OutOfRange, d)"
    using assms(1) c by (simp add: entry_strict_def)
  show "entry_simple clk i d = (Threw OutOfRange, d)"
    using assms(1) c by (simp add: entry_simple_def)
qed

lemma issue_update:
  assumes "fitsInteger (quantity e - i_quantity i)"
  shows "updateMaterial (i_materialCode i)
          \<lparr>u_quantity = Some (quantity e - i_quantity i), u_rack = None, u_bin = None\<rparr>
          (clk 0) d =
        Inr (map_option (applyUpdates \<lparr>u_quantity = Some (quantity e - i_quantity i),
                u_rack = None, u_bin = None\<rparr> (clk 0))
               (getMaterialByCode (i_materialCode i) d),
             d\<lparr>materials := map (\<lambda>m. if code m = i_materialCode i
                 then applyUpdates \<lparr>u_quantity = Some (quantity e - i_quantity i),
                        u_rack = None, u_bin = None\<rparr> (clk 0) m
                 else m) (materials d)\<rparr>)"
  by (rule updateMaterial_result [OF _ assms]) simp

lemma issue_update_rejected:
  assumes "\<not> fitsInteger (quantity e - i_quantity i)"
  shows "updateMaterial (i_materialCode i)
          \<lparr>u_quantity = Some (quantity e - i_quantity i), u_rack = None, u_bin = None\<rparr>
          (clk 0) d = Inl OutOfRange"
  by (rule updateMaterial_rejected [OF _ assms]) simp

lemma issue_strict_ok:
  assumes "getMaterialByCode (i_materialCode i) d = Some e"
    and "toUpperCase p (rack e) = toUpperCase p (i_rack i)" and "bin e = i_bin i"
    and "i_quantity i \<le> quantity e"
    and "fitsInteger (quantity e - i_quantity i)"
  shows "issue_strict p clk i d =
    (Response 200 (JsonMaterial (Some (e\<lparr>quantity := quantity e - i_quantity i,
        lastUpdated := clk 0\<rparr>))),
     d\<lparr>materials := map (\<lambda>m. if code m = i_materialCode i
                          then m\<lparr>quantity := quantity e - i_quantity i, lastUpdated := clk 0\<rparr>
                          else m) (materials d),
       logs := logs d @ [\<lparr>log_materialCode = i_materialCode i, log_action = lit ''issue'',
          log_quantity = i_quantity i, log_rack = i_rack i, log_bin = i_bin i,
          log_enteredBy = None, log_issuedBy = i_issuedBy i,
          log_userId = Some (lit ''system''),
          log_balanceQty = quantity e - i_quantity i, log_timestamp = clk 1\<rparr>],
       binTransactions := binTransactions d @ [\<lparr>tx_materialCode = i_materialCode i,
          tx_binLocation = i_rack i @ lit ''-'' @ i_bin i, tx_receivedQty = 0,
          tx_issuedQty = i_quantity i, tx_balanceQty = quantity e - i_quantity i,
          tx_personName = i_issuedBy i, tx_createdAt = clk 2\<rparr>]\<rparr>)"
  using assms(1-4) issue_update [OF assms(5), of clk d]
  by (simp add: issue_strict_def handler_simps)

lemma issue_simple_ok:
  assumes "getMaterialByCode (i_materialCode i) d = Some e"
    and "i_quantity i \<le> quantity e"
    and "fitsInteger (quantity e - i_quantity i)"
  shows "issue_simple clk i d =
    (Response 200 (JsonMaterial (Some (e\<lparr>quantity := quantity e - i_quantity i,
        lastUpdated := clk 0\<rparr>))),
     d\<lparr>materials := map (\<lambda>m. if code m = i_materialCode i
                          then m\<lparr>quantity := quantity e - i_quantity i, lastUpdated := clk 0\<rparr>
                          else m) (materials d),
       logs := logs d @ [\<lparr>log_materialCode = i_materialCode i, log_action = lit ''issue'',
          log_quantity = i_quantity i, log_rack = i_rack i, log_bin = i_bin i,
          log_enteredBy = None, log_issuedBy = i_issuedBy i,
          log_userId = Some (lit ''system''),
          log_balanceQty = quantity e - i_quantity i, log_timestamp = clk 1\<rparr>]\<rparr>)"
  using assms(1-2) issue_update [OF assms(3), of clk d]
  by (simp add: issue_simple_def handler_simps)

lemma issue_strict_rejected:
  assumes "getMaterialByCode (i_materialCode i) d = Some e"
    and "toUpperCase p (rack e) = toUpperCase p (i_rack i)" and "bin e = i_bin i"
    and "i_quantity i \<le> quantity e"
    and "\<not> fitsInteger (quantity e - i_quantity i)"
  shows "issue_strict p clk i d = (Threw OutOfRange, d)"
  using assms(1-4) issue_update_rejected [OF assms(5), of clk d]
  by (simp add: issue_strict_def)

lemma issue_simple_rejected:
  assumes "getMaterialByCode (i_materialCode i) d = Some e"
    and "i_quantity i \<le> quantity e"
    and "\<not> fitsInteger (quantity e - i_quantity i)"
  shows "issue_simple clk i d = (Threw OutOfRange, d)"
  using assms(1-2) issue_update_rejected [OF assms(3), of clk d]
  by (simp add: issue_simple_def)

lemma issue_strict_absent:
  "getMaterialByCode (i_materialCode i) d = None \<Longrightarrow>
   issue_strict p clk i d = (Response 404 (JsonMessage (lit ''Material not found'')), d)"
  by (simp add: issue_strict_def)

lemma issue_simple_absent:
  "getMaterialByCode (i_materialCode i) d = None \<Longrightarrow>
   issue_simple clk i d = (Response 404 (JsonMessage (lit ''Material not found'')), d)"
  by (simp add: issue_simple_def)

lemma issue_strict_mismatch:
  "getMaterialByCode (i_materialCode i) d = Some e \<Longrightarrow>
   toUpperCase p (rack e) \<noteq> toUpperCase p (i_rack i) \<or> bin e \<noteq> i_bin i \<Longrightarrow>
   issue_strict p clk i d = (Response 400 (locationMismatch e), d)"
  by (auto simp: issue_strict_def)

lemma issue_strict_insufficient:
  "getMaterialByCode (i_materialCode i) d = Some e \<Longrightarrow>
   toUpperCase p (rack e) = toUpperCase p (i_rack i) \<Longrightarrow> bin e = i_bin i \<Longrightarrow>
   quantity e < i_quantity i \<Longrightarrow>
   issue_strict p clk i d = (Response 400 (JsonMessage (lit ''Insufficient quantity'')), d)"
  by (simp add: issue_strict_def)

lemma issue_simple_insufficient:
  "getMaterialByCode (i_materialCode i) d = Some e \<Longrightarrow> quantity e < i_quantity i \<Longrightarrow>
   issue_simple clk i d = (Response 400 (JsonMessage (lit ''Insufficient quantity'')), d)"
  by (simp add: issue_simple_def)

lemma issue_strict_cases:
  "(getMaterialByCode (i_materialCode i) d = None \<and>
      issue_strict p clk i d = (Response 404 (JsonMessage (lit ''Material not found'')), d)) \<or>
   (\<exists>e. getMaterialByCode (i_materialCode i) d = Some e \<and>
      (toUpperCase p (rack e) \<noteq> toUpperCase p (i_rack i) \<or> bin e \<noteq> i_bin i) \<and>
      issue_strict p clk i d = (Response 400 (locationMismatch e), d)) \<or>
   (\<exists>e. getMaterialByCode (i_materialCode i) d = Some e \<and>
      toUpperCase p (rack e) = toUpperCase p (i_rack i) \<and> bin e = i_bin i \<and>
      quantity e < i_quantity i \<and>
      issue_strict p clk i d = (Response 400 (JsonMessage (lit ''Insufficient quantity'')), d)) \<or>
   (\<exists>e. getMaterialByCode (i_materialCode i) d = Some e \<and>
      toUpperCase p (rack e) = toUpperCase p (i_rack i) \<and> bin e = i_bin i \<and>
      i_quantity i \<le> quantity e \<and> \<not> fitsInteger (quantity e - i_quantity i) \<and>
      issue_strict p clk i d = (Threw OutOfRange, d)) \<or>
   (\<exists>e. getMaterialByCode (i_materialCode i) d = Some e \<and>
      toUpperCase p (rack e) = toUpperCase p (i_rack i) \<and> bin e = i_bin i \<and>
      i_quantity i \<le> quantity e \<and> fitsInteger (quantity e - i_quantity i) \<and>
      status (fst (issue_strict p clk i d)) = Some 200)"
proof (cases "getMaterialByCode (i_materialCode i) d")
  case None
  then show ?thesis by (simp add: issue_strict_absent)
next
  case (Some e)
  show ?thesis
  proof (cases "toUpperCase p (rack e) \<noteq> toUpperCase p (i_rack i) \<or> bin e \<noteq> i_bin i")
    case True
    with Some show ?thesis using issue_strict_mismatch [of i d e p clk] by simp
  next
    case False
    then have loc: "toUpperCase p (rack e) = toUpperCase p (i_rack i)" "bin e = i_bin i"
      by simp_all
    show ?thesis
    proof (cases "quantity e < i_quantity i")
      case True
      with Some loc show ?thesis using issue_strict_insufficient [of i d e p clk] by simp
    next
      case False
      then have le: "i_quantity i \<le> quantity e" by simp
      show ?thesis
      proof (cases "fitsInteger (quantity e - i_quantity i)")
        case True
        with Some loc le show ?thesis using issue_strict_ok [of i d e p clk] by simp
      next
        case False
        with Some loc le show ?thesis using issue_strict_rejected [of i d e p clk] by simp
      qed
    qed
  qed
qed

lemma issue_simple_cases:
  "(getMaterialByCode (i_materialCode i) d = None \<and>
      issue_simple clk i d = (Response 404 (JsonMessage (lit ''Material not found'')), d)) \<or>
   (\<exists>e. getMaterialByCode (i_materialCode i) d = Some e \<and> quantity e < i_quantity i \<and>
      issue_simple clk i d = (Response 400 (JsonMessage (lit ''Insufficient quantity'')), d)) \<or>
   (\<exists>e. getMaterialByCode (i_materialCode i) d = Some e \<and>
      i_quantity i \<le> quantity e \<and> \<not> fitsInteger (quantity e - i_quantity i) \<and>
      issue_simple clk i d = (Threw OutOfRange, d)) \<or>
   (\<exists>e. getMaterialByCode (i_materialCode i) d = Some e \<and>
      i_quantity i \<le> quantity e \<and> fitsInteger (quantity e - i_quantity i) \<and>
      status (fst (issue_simple clk i d)) = Some 200)"
proof (cases "getMaterialByCode (i_materialCode i) d")
  case None
  then show ?thesis by (simp add: issue_simple_absent)
next
  case (Some e)
  show ?thesis
  proof (cases "quantity e < i_quantity i")
    case True
    with Some show ?thesis using issue_simple_insufficient [of i d e clk] by simp
  next
    case False
    then have le: "i_quantity i \<le> quantity e" by simp
    show ?thesis
    proof (cases "fitsInteger (quantity e - i_quantity i)")
      case True
      with Some le show ?thesis using issue_simple_ok [of i d e clk] by simp
    next
      case False
      with Some le show ?thesis using issue_simple_rejected [of i d e clk] by simp
    qed
  qed
qed

section \<open>Logging a code that has no material\<close>

text \<open>
  C10. When \<open>createLog\<close> runs for a material code that has no row in the materials table,
  it does not fail: it appends one log whose balance quantity is 0, with the fields of
  the request copied.
\<close>

theorem createLog_absent_material_balance_zero:
  assumes "getMaterialByCode (il_materialCode insertLog) d = None"
  shows "log_balanceQty (fst (createLog insertLog now d)) = 0 \<and>
         logs (snd (createLog insertLog now d)) = logs d @ [fst (createLog insertLog now d)] \<and>
         log_materialCode (fst (createLog insertLog now d)) = il_materialCode insertLog"
  using assms by (simp add: createLog_result)

theorem createLog_absent_material_balance_zero_witness:
  "getMaterialByCode (lit ''GONE'') emptyStore = None \<and>
   log_balanceQty (fst (createLog
     \<lparr>il_materialCode = lit ''GONE'', il_action = lit ''issue'', il_quantity = 5,
      il_rack = lit ''A1'', il_bin = lit ''01'', il_enteredBy = None, il_issuedBy = None,
      il_userId = None\<rparr>
     7 emptyStore)) = 0"
proof -
  have absent: "getMaterialByCode (lit ''GONE'') emptyStore = None"
    by (simp add: getMaterialByCode_def emptyStore_def)
  show ?thesis
    using absent
      createLog_absent_material_balance_zero
        [of "\<lparr>il_materialCode = lit ''GONE'', il_action = lit ''issue'', il_quantity = 5,
              il_rack = lit ''A1'', il_bin = lit ''01'', il_enteredBy = None,
              il_issuedBy = None, il_userId = None\<rparr>" emptyStore 7]
    by simp
qed

section \<open>Resetting the inventory\<close>

text \<open>
  C8. \<open>resetInventory\<close> keeps every material row, in place: the row's quantity becomes 0
  and its \<open>lastUpdated\<close> becomes the time of the reset, while its code, rack and bin stay
  as they were. The logs and the bin transactions are left untouched.
\<close>

theorem resetInventory_frame:
  "length (materials (resetInventory now d)) = length (materials d) \<and>
   (\<forall>k < length (materials d).
      quantity (materials (resetInventory now d) ! k) = 0 \<and>
      lastUpdated (materials (resetInventory now d) ! k) = now \<and>
      code (materials (resetInventory now d) ! k) = code (materials d ! k) \<and>
      rack (materials (resetInventory now d) ! k) = rack (materials d ! k) \<and>
      bin (materials (resetInventory now d) ! k) = bin (materials d ! k)) \<and>
   logs (resetInventory now d) = logs d \<and>
   binTransactions (resetInventory now d) = binTransactions d"
  by (simp add: resetInventory_def)

theorem resetInventory_frame_witness:
  "(0::nat) < length (materials
      \<lparr>materials = [\<lparr>code = lit ''TRIM-001'', quantity = 100, rack = lit ''A1'',
                      bin = lit ''01'', lastUpdated = 5\<rparr>], logs = [], binTransactions = []\<rparr>) \<and>
   quantity (materials (resetInventory 9
      \<lparr>materials = [\<lparr>code = lit ''TRIM-001'', quantity = 100, rack = lit ''A1'',
                      bin = lit ''01'', lastUpdated = 5\<rparr>], logs = [],
       binTransactions = []\<rparr>) ! 0) = 0 \<and>
   rack (materials (resetInventory 9
      \<lparr>materials = [\<lparr>code = lit ''TRIM-001'', quantity = 100, rack = lit ''A1'',
                      bin = lit ''01'', lastUpdated = 5\<rparr>], logs = [],
       binTransactions = []\<rparr>) ! 0) = lit ''A1''"
  using resetInventory_frame
    [of 9 "\<lparr>materials = [\<lparr>code = lit ''TRIM-001'', quantity = 100, rack = lit ''A1'',
                             bin = lit ''01'', lastUpdated = 5\<rparr>], logs = [],
              binTransactions = []\<rparr>"]
  by simp

section \<open>Failed issues\<close>

text \<open>
  C2. Every business-rule failure of an issue is found before anything is written. An
  absent material is answered with 404 in both variants; a location mismatch is answered
  with 400 in the strict variant; a quantity above the stock is answered with 400 in both
  variants (in the strict variant the answer is the insufficient-quantity message when
  the location matches, the location message otherwise). In each of these cases, and
  whenever the answer is not the success status 200, the store that the handler leaves
  is the store it found: materials, logs and bin transactions are unchanged.
\<close>

theorem issue_failure_leaves_store_unchanged:
  "(getMaterialByCode (i_materialCode i) d = None \<longrightarrow>
      issue_strict p clk i d = (Response 404 (JsonMessage (lit ''Material not found'')), d) \<and>
      issue_simple clk i d = (Response 404 (JsonMessage (lit ''Material not found'')), d)) \<and>
   (\<forall>e. getMaterialByCode (i_materialCode i) d = Some e \<and>
        (toUpperCase p (rack e) \<noteq> toUpperCase p (i_rack i) \<or> bin e \<noteq> i_bin i) \<longrightarrow>
      issue_strict p clk i d = (Response 400 (locationMismatch e), d)) \<and>
   (\<forall>e. getMaterialByCode (i_materialCode i) d = Some e \<and> quantity e < i_quantity i \<longrightarrow>
      issue_simple clk i d = (Response 400 (JsonMessage (lit ''Insufficient quantity'')), d) \<and>
      status (fst (issue_strict p clk i d)) = Some 400 \<and> snd (issue_strict p clk i d) = d \<and>
      (toUpperCase p (rack e) = toUpperCase p (i_rack i) \<and> bin e = i_bin i \<longrightarrow>
         issue_strict p clk i d =
           (Response 400 (JsonMessage (lit ''Insufficient quantity'')), d))) \<and>
   (status (fst (issue_strict p clk i d)) \<noteq> Some 200 \<longrightarrow> snd (issue_strict p clk i d) = d) \<and>
   (status (fst (issue_simple clk i d)) \<noteq> Some 200 \<longrightarrow> snd (issue_simple clk i d) = d)"
proof (intro conjI allI impI)
  assume "getMaterialByCode (i_materialCode i) d = None"
  then show "issue_strict p clk i d = (Response 404 (JsonMessage (lit ''Material not found'')), d)"
    by (rule issue_strict_absent)
next
  assume "getMaterialByCode (i_materialCode i) d = None"
  then show "issue_simple clk i d = (Response 404 (JsonMessage (lit ''Material not found'')), d)"
    by (rule issue_simple_absent)
next
  fix e
  assume "getMaterialByCode (i_materialCode i) d = Some e \<and>
    (toUpperCase p (rack e) \<noteq> toUpperCase p (i_rack i) \<or> bin e \<noteq> i_bin i)"
  then show "issue_strict p clk i d = (Response 400 (locationMismatch e), d)"
    using issue_strict_mismatch [of i d e p clk] by blast
next
  fix e
  assume h: "getMaterialByCode (i_materialCode i) d = Some e \<and> quantity e < i_quantity i"
  then show "issue_simple clk i d =
      (Response 400 (JsonMessage (lit ''Insufficient quantity'')), d)"
    using issue_simple_insufficient [of i d e clk] by blast
  from h show "status (fst (issue_strict p clk i d)) = Some 400"
    using issue_strict_cases [of i d p clk] by auto
  from h show "snd (issue_strict p clk i d) = d"
    using issue_strict_cases [of i d p clk] by auto
  assume "toUpperCase p (rack e) = toUpperCase p (i_rack i) \<and> bin e = i_bin i"
  with h show "issue_strict p clk i d =
      (Response 400 (JsonMessage (lit ''Insufficient quantity'')), d)"
    using issue_strict_insufficient [of i d e p clk] by blast
next
  assume "status (fst (issue_strict p clk i d)) \<noteq> Some 200"
  then show "snd (issue_strict p clk i d) = d"
    using issue_strict_cases [of i d p clk] by auto
next
  assume "status (fst (issue_simple clk i d)) \<noteq> Some 200"
  then show "snd (issue_simple clk i d) = d"
    using issue_simple_cases [of i d clk] by auto
qed

theorem issue_failure_leaves_store_unchanged_witness:
  "getMaterialByCode (lit ''TRIM-001'') seeded = Some trim001 \<and> quantity trim001 < 200 \<and>
   issue_simple Suc \<lparr>i_materialCode = lit ''TRIM-001'', i_quantity = 200, i_rack = lit ''A1'',
                      i_bin = lit ''01'', i_issuedBy = None\<rparr> seeded =
     (Response 400 (JsonMessage (lit ''Insufficient quantity'')), seeded) \<and>
   snd (issue_strict asciiPlatform Suc
          \<lparr>i_materialCode = lit ''TRIM-001'', i_quantity = 200, i_rack = lit ''A1'',
           i_bin = lit ''01'', i_issuedBy = None\<rparr> seeded) = seeded"
proof -
  have found: "getMaterialByCode (lit ''TRIM-001'') seeded = Some trim001"
    by (simp add: getMaterialByCode_def seeded_def trim001_def)
  have less: "quantity trim001 < 200"
    by (simp add: trim001_def)
  show ?thesis
    using found less
      issue_failure_leaves_store_unchanged
        [of "\<lparr>i_materialCode = lit ''TRIM-001'', i_quantity = 200, i_rack = lit ''A1'',
              i_bin = lit ''01'', i_issuedBy = None\<rparr>" seeded asciiPlatform Suc]
    by simp
qed

section \<open>The log of a successful call\<close>

lemma entry_cases:
  "(fitsInteger (quantityAfterEntry e d) \<and>
      status (fst (entry_strict clk e d)) =
        Some (if getMaterialByCode (e_materialCode e) d = None then 201 else 200) \<and>
      status (fst (entry_simple clk e d)) =
        Some (if getMaterialByCode (e_materialCode e) d = None then 201 else 200)) \<or>
   (\<not> fitsInteger (quantityAfterEntry e d) \<and>
      entry_strict clk e d = (Threw OutOfRange, d) \<and>
      entry_simple clk e d = (Threw OutOfRange, d))"
proof (cases "getMaterialByCode (e_materialCode e) d")
  case None
  then show ?thesis
    by (cases "fitsInteger (e_quantity e)")
       (simp_all add: quantityAfterEntry_def entry_strict_fresh entry_simple_fresh
          entry_fresh_rejected)
next
  case (Some x)
  then show ?thesis
    by (cases "fitsInteger (quantity x + e_quantity e)")
       (simp_all add: quantityAfterEntry_def entry_strict_existing entry_simple_existing
          entry_existing_rejected)
qed

lemma entry_strict_log:
  assumes "fitsInteger (quantityAfterEntry e d)"
  shows "\<exists>m. getMaterialByCode (e_materialCode e) (snd (entry_strict clk e d)) = Some m \<and>
        quantity m = quantityAfterEntry e d \<and> rack m = e_rack e \<and> bin m = e_bin e \<and>
        logs (snd (entry_strict clk e d)) = logs d @
          [\<lparr>log_materialCode = e_materialCode e, log_action = lit ''entry'',
            log_quantity = e_quantity e, log_rack = e_rack e, log_bin = e_bin e,
            log_enteredBy = e_enteredBy e, log_issuedBy = None,
            log_userId = Some (lit ''system''),
            log_balanceQty = quantity m, log_timestamp = clk 1\<rparr>] \<and>
        binTransactions (snd (entry_strict clk e d)) = binTransactions d @
          [\<lparr>tx_materialCode = e_materialCode e, tx_binLocation = e_rack e @ lit ''-'' @ e_bin e,
            tx_receivedQty = e_quantity e, tx_issuedQty = 0, tx_balanceQty = quantity m,
            tx_personName = e_enteredBy e, tx_createdAt = clk 2\<rparr>]"
proof (cases "getMaterialByCode (e_materialCode e) d")
  case None
  with assms have fits: "fitsInteger (e_quantity e)"
    by (simp add: quantityAfterEntry_def)
  from None have "find (\<lambda>m. code m = e_materialCode e) (materials d) = None"
    by (simp add: getMaterialByCode_def)
  then show ?thesis
    using None
    by (simp add: entry_strict_fresh [OF None fits] getMaterialByCode_def find_code_append
        quantityAfterEntry_def)
next
  case (Some x)
  with assms have fits: "fitsInteger (quantity x + e_quantity e)"
    by (simp add: quantityAfterEntry_def)
  from Some have "find (\<lambda>m. code m = e_materialCode e) (materials d) = Some x"
    by (simp add: getMaterialByCode_def)
  then show ?thesis
    using Some
    by (simp add: entry_strict_existing [OF Some fits] getMaterialByCode_def find_code_map_if
        quantityAfterEntry_def)
qed

lemma entry_simple_log:
  assumes "fitsInteger (quantityAfterEntry e d)"
  shows "\<exists>m. getMaterialByCode (e_materialCode e) (snd (entry_simple clk e d)) = Some m \<and>
        quantity m = quantityAfterEntry e d \<and> rack m = e_rack e \<and> bin m = e_bin e \<and>
        logs (snd (entry_simple clk e d)) = logs d @
          [\<lparr>log_materialCode = e_materialCode e, log_action = lit ''entry'',
            log_quantity = e_quantity e, log_rack = e_rack e, log_bin = e_bin e,
            log_enteredBy = None, log_issuedBy = None, log_userId = Some (lit ''system''),
            log_balanceQty = quantity m, log_timestamp = clk 1\<rparr>] \<and>
        binTransactions (snd (entry_simple clk e d)) = binTransactions d"
proof (cases "getMaterialByCode (e_materialCode e) d")
  case None
  with assms have fits: "fitsInteger (e_quantity e)"
    by (simp add: quantityAfterEntry_def)
  from None have "find (\<lambda>m. code m = e_materialCode e) (materials d) = None"
    by (simp add: getMaterialByCode_def)
  then show ?thesis
    using None
    by (simp add: entry_simple_fresh [OF None fits] getMaterialByCode_def find_code_append
        quantityAfterEntry_def)
next
  case (Some x)
  with assms have fits: "fitsInteger (quantity x + e_quantity e)"
    by (simp add: quantityAfterEntry_def)
  from Some have "find (\<lambda>m. code m = e_materialCode e) (materials d) = Some x"
    by (simp add: getMaterialByCode_def)
  then show ?thesis
    using Some
    by (simp add: entry_simple_existing [OF Some fits] getMaterialByCode_def find_code_map_if
        quantityAfterEntry_def)
qed

lemma issue_strict_log:
  assumes "getMaterialByCode (i_materialCode i) d = Some x"
    and "toUpperCase p (rack x) = toUpperCase p (i_rack i)" and "bin x = i_bin i"
    and "i_quantity i \<le> quantity x"
    and "fitsInteger (quantity x - i_quantity i)"
  shows "status (fst (issue_strict p clk i d)) = Some 200 \<and>
      getMaterialByCode (i_materialCode i) (snd (issue_strict p clk i d)) =
        Some (x\<lparr>quantity := quantity x - i_quantity i, lastUpdated := clk 0\<rparr>) \<and>
      logs (snd (issue_strict p clk i d)) = logs d @
          [\<lparr>log_materialCode = i_materialCode i, log_action = lit ''issue'',
            log_quantity = i_quantity i, log_rack = i_rack i, log_bin = i_bin i,
            log_enteredBy = None, log_issuedBy = i_issuedBy i,
            log_userId = Some (lit ''system''),
            log_balanceQty = quantity x - i_quantity i, log_timestamp = clk 1\<rparr>] \<and>
      binTransactions (snd (issue_strict p clk i d)) = binTransactions d @
          [\<lparr>tx_materialCode = i_materialCode i,
            tx_binLocation = i_rack i @ lit ''-'' @ i_bin i, tx_receivedQty = 0,
            tx_issuedQty = i_quantity i, tx_balanceQty = quantity x - i_quantity i,
            tx_personName = i_issuedBy i, tx_createdAt = clk 2\<rparr>]"
proof -
  from assms(1) have "find (\<lambda>m. code m = i_materialCode i) (materials d) = Some x"
    by (simp add: getMaterialByCode_def)
  then show ?thesis
    by (simp add: issue_strict_ok [OF assms] getMaterialByCode_def find_code_map_if)
qed

lemma issue_simple_log:
  assumes "getMaterialByCode (i_materialCode i) d = Some x"
    and "i_quantity i \<le> quantity x"
    and "fitsInteger (quantity x - i_quantity i)"
  shows "status (fst (issue_simple clk i d)) = Some 200 \<and>
      getMaterialByCode (i_materialCode i) (snd (issue_simple clk i d)) =
        Some (x\<lparr>quantity := quantity x - i_quantity i, lastUpdated := clk 0\<rparr>) \<and>
      logs (snd (issue_simple clk i d)) = logs d @
          [\<lparr>log_materialCode = i_materialCode i, log_action = lit ''issue'',
            log_quantity = i_quantity i, log_rack = i_rack i, log_bin = i_bin i,
            log_enteredBy = None, log_issuedBy = i_issuedBy i,
            log_userId = Some (lit ''system''),
            log_balanceQty = quantity x - i_quantity i, log_timestamp = clk 1\<rparr>] \<and>
      binTransactions (snd (issue_simple clk i d)) = binTransactions d"
proof -
  from assms(1) have "find (\<lambda>m. code m = i_materialCode i) (materials d) = Some x"
    by (simp add: getMaterialByCode_def)
  then show ?thesis
    by (simp add: issue_simple_ok [OF assms] getMaterialByCode_def find_code_map_if)
qed

text \<open>
  C4. A call succeeds when it is answered with status 200 or 201. An entry succeeds
  exactly when the quantity it hands to the store lies in the integer column. An issue
  of the simple variant succeeds exactly when the material exists, the requested quantity
  is at most the stock and the remainder lies in the column; the strict variant asks in
  addition that the location matches. Each successful call appends exactly one log to
  the logs it found. The action, quantity, rack and bin of that log are those of the
  request, and its balance quantity is the quantity that the material of the request has
  in the store right after the call.
\<close>

theorem successful_call_appends_one_log:
  "(fitsInteger (quantityAfterEntry e d) \<longrightarrow>
      status (fst (entry_strict clk e d)) =
        Some (if getMaterialByCode (e_materialCode e) d = None then 201 else 200) \<and>
      (\<exists>m. getMaterialByCode (e_materialCode e) (snd (entry_strict clk e d)) = Some m \<and>
        quantity m = quantityAfterEntry e d \<and>
        logs (snd (entry_strict clk e d)) = logs d @
          [\<lparr>log_materialCode = e_materialCode e, log_action = lit ''entry'',
            log_quantity = e_quantity e, log_rack = e_rack e, log_bin = e_bin e,
            log_enteredBy = e_enteredBy e, log_issuedBy = None,
            log_userId = Some (lit ''system''),
            log_balanceQty = quantity m, log_timestamp = clk 1\<rparr>])) \<and>
   (status (fst (entry_strict clk e d)) \<noteq> None \<longrightarrow> fitsInteger (quantityAfterEntry e d)) \<and>
   (fitsInteger (quantityAfterEntry e d) \<longrightarrow>
      status (fst (entry_simple clk e d)) =
        Some (if getMaterialByCode (e_materialCode e) d = None then 201 else 200) \<and>
      (\<exists>m. getMaterialByCode (e_materialCode e) (snd (entry_simple clk e d)) = Some m \<and>
        quantity m = quantityAfterEntry e d \<and>
        logs (snd (entry_simple clk e d)) = logs d @
          [\<lparr>log_materialCode = e_materialCode e, log_action = lit ''entry'',
            log_quantity = e_quantity e, log_rack = e_rack e, log_bin = e_bin e,
            log_enteredBy = None, log_issuedBy = None, log_userId = Some (lit ''system''),
            log_balanceQty = quantity m, log_timestamp = clk 1\<rparr>])) \<and>
   (status (fst (entry_simple clk e d)) \<noteq> None \<longrightarrow> fitsInteger (quantityAfterEntry e d)) \<and>
   (\<forall>x. getMaterialByCode (i_materialCode i) d = Some x \<and>
        toUpperCase p (rack x) = toUpperCase p (i_rack i) \<and> bin x = i_bin i \<and>
        i_quantity i \<le> quantity x \<and> fitsInteger (quantity x - i_quantity i) \<longrightarrow>
      status (fst (issue_strict p clk i d)) = Some 200 \<and>
      (\<exists>m. getMaterialByCode (i_materialCode i) (snd (issue_strict p clk i d)) = Some m \<and>
        quantity m = quantity x - i_quantity i \<and>
        logs (snd (issue_strict p clk i d)) = logs d @
          [\<lparr>log_materialCode = i_materialCode i, log_action = lit ''issue'',
            log_quantity = i_quantity i, log_rack = i_rack i, log_bin = i_bin i,
            log_enteredBy = None, log_issuedBy = i_issuedBy i,
            log_userId = Some (lit ''system''),
            log_balanceQty = quantity m, log_timestamp = clk 1\<rparr>])) \<and>
   (status (fst (issue_strict p clk i d)) = Some 200 \<longrightarrow>
      (\<exists>x. getMaterialByCode (i_materialCode i) d = Some x \<and>
        toUpperCase p (rack x) = toUpperCase p (i_rack i) \<and> bin x = i_bin i \<and>
        i_quantity i \<le> quantity x \<and> fitsInteger (quantity x - i_quantity i))) \<and>
   (\<forall>x. getMaterialByCode (i_materialCode i) d = Some x \<and>
        i_quantity i \<le> quantity x \<and> fitsInteger (quantity x - i_quantity i) \<longrightarrow>
      status (fst (issue_simple clk i d)) = Some 200 \<and>
      (\<exists>m. getMaterialByCode (i_materialCode i) (snd (issue_simple clk i d)) = Some m \<and>
        quantity m = quantity x - i_quantity i \<and>
        logs (snd (issue_simple clk i d)) = logs d @
          [\<lparr>log_materialCode = i_materialCode i, log_action = lit ''issue'',
            log_quantity = i_quantity i, log_rack = i_rack i, log_bin = i_bin i,
            log_enteredBy = None, log_issuedBy = i_issuedBy i,
            log_userId = Some (lit ''system''),
            log_balanceQty = quantity m, log_timestamp = clk 1\<rparr>])) \<and>
   (status (fst (issue_simple clk i d)) = Some 200 \<longrightarrow>
      (\<exists>x. getMaterialByCode (i_materialCode i) d = Some x \<and>
        i_quantity i \<le> quantity x \<and> fitsInteger (quantity x - i_quantity i)))"
proof (intro conjI allI impI)
  assume fits: "fitsInteger (quantityAfterEntry e d)"
  show "status (fst (entry_strict clk e d)) =
        Some (if getMaterialByCode (e_materialCode e) d = None then 201 else 200)"
    using fits entry_cases [of e d clk] by blast
  show "\<exists>m. getMaterialByCode (e_materialCode e) (snd (entry_strict clk e d)) = Some m \<and>
        quantity m = quantityAfterEntry e d \<and>
        logs (snd (entry_strict clk e d)) = logs d @
          [\<lparr>log_materialCode = e_materialCode e, log_action = lit ''entry'',
            log_quantity = e_quantity e, log_rack = e_rack e, log_bin = e_bin e,
            log_enteredBy = e_enteredBy e, log_issuedBy = None,
            log_userId = Some (lit ''system''),
            log_balanceQty = quantity m, log_timestamp = clk 1\<rparr>]"
    using entry_strict_log [OF fits, of clk] by blast
next
  assume "status (fst (entry_strict clk e d)) \<noteq> None"
  then show "fitsInteger (quantityAfterEntry e d)"
    using entry_cases [of e d clk] by auto
next
  assume fits: "fitsInteger (quantityAfterEntry e d)"
  show "status (fst (entry_simple clk e d)) =
        Some (if getMaterialByCode (e_materialCode e) d = None then 201 else 200)"
    using fits entry_cases [of e d clk] by blast
  show "\<exists>m. getMaterialByCode (e_materialCode e) (snd (entry_simple clk e d)) = Some m \<and>
        quantity m = quantityAfterEntry e d \<and>
        logs (snd (entry_simple clk e d)) = logs d @
          [\<lparr>log_materialCode = e_materialCode e, log_action = lit ''entry'',
            log_quantity = e_quantity e, log_rack = e_rack e, log_bin = e_bin e,
            log_enteredBy = None, log_issuedBy = None, log_userId = Some (lit ''system''),
            log_balanceQty = quantity m, log_timestamp = clk 1\<rparr>]"
    using entry_simple_log [OF fits, of clk] by blast
next
  assume "status (fst (entry_simple clk e d)) \<noteq> None"
  then show "fitsInteger (quantityAfterEntry e d)"
    using entry_cases [of e d clk] by auto
next
  fix x
  assume "getMaterialByCode (i_materialCode i) d = Some x \<and>
        toUpperCase p (rack x) = toUpperCase p (i_rack i) \<and> bin x = i_bin i \<and>
        i_quantity i \<le> quantity x \<and> fitsInteger (quantity x - i_quantity i)"
  then have x: "getMaterialByCode (i_materialCode i) d = Some x"
      "toUpperCase p (rack x) = toUpperCase p (i_rack i)" "bin x = i_bin i"
      "i_quantity i \<le> quantity x" "fitsInteger (quantity x - i_quantity i)"
    by simp_all
  show "status (fst (issue_strict p clk i d)) = Some 200"
    using issue_strict_log [OF x, of clk] by simp
  show "\<exists>m. getMaterialByCode (i_materialCode i) (snd (issue_strict p clk i d)) = Some m \<and>
        quantity m = quantity x - i_quantity i \<and>
        logs (snd (issue_strict p clk i d)) = logs d @
          [\<lparr>log_materialCode = i_materialCode i, log_action = lit ''issue'',
            log_quantity = i_quantity i, log_rack = i_rack i, log_bin = i_bin i,
            log_enteredBy = None, log_issuedBy = i_issuedBy i,
            log_userId = Some (lit ''system''),
            log_balanceQty = quantity m, log_timestamp = clk 1\<rparr>]"
    using issue_strict_log [OF x, of clk] by simp
next
  assume "status (fst (issue_strict p clk i d)) = Some 200"
  then show "\<exists>x. getMaterialByCode (i_materialCode i) d = Some x \<and>
        toUpperCase p (rack x) = toUpperCase p (i_rack i) \<and> bin x = i_bin i \<and>
        i_quantity i \<le> quantity x \<and> fitsInteger (quantity x - i_quantity i)"
    using issue_strict_cases [of i d p clk] by auto
next
  fix x
  assume "getMaterialByCode (i_materialCode i) d = Some x \<and>
        i_quantity i \<le> quantity x \<and> fitsInteger (quantity x - i_quantity i)"
  then have x: "getMaterialByCode (i_materialCode i) d = Some x"
      "i_quantity i \<le> quantity x" "fitsInteger (quantity x - i_quantity i)"
    by simp_all
  show "status (fst (issue_simple clk i d)) = Some 200"
    using issue_simple_log [OF x, of clk] by simp
  show "\<exists>m. getMaterialByCode (i_materialCode i) (snd (issue_simple clk i d)) = Some m \<and>
        quantity m = quantity x - i_quantity i \<and>
        logs (snd (issue_simple clk i d)) = logs d @
          [\<lparr>log_materialCode = i_materialCode i, log_action = lit ''issue'',
            log_quantity = i_quantity i, log_rack = i_rack i, log_bin = i_bin i,
            log_enteredBy = None, log_issuedBy = i_issuedBy i,
            log_userId = Some (lit ''system''),
            log_balanceQty = quantity m, log_timestamp = clk 1\<rparr>]"
    using issue_simple_log [OF x, of clk] by simp
next
  assume "status (fst (issue_simple clk i d)) = Some 200"
  then show "\<exists>x. getMaterialByCode (i_materialCode i) d = Some x \<and>
        i_quantity i \<le> quantity x \<and> fitsInteger (quantity x - i_quantity i)"
    using issue_simple_cases [of i d clk] by auto
qed

theorem successful_call_appends_one_log_witness:
  "fitsInteger (quantityAfterEntry
      \<lparr>e_materialCode = lit ''TRIM-001'', e_quantity = 5, e_rack = lit ''A1'',
       e_bin = lit ''01'', e_enteredBy = None\<rparr> seeded) \<and>
   status (fst (entry_strict Suc
      \<lparr>e_materialCode = lit ''TRIM-001'', e_quantity = 5, e_rack = lit ''A1'',
       e_bin = lit ''01'', e_enteredBy = None\<rparr> seeded)) = Some 200 \<and>
   status (fst (entry_simple Suc
      \<lparr>e_materialCode = lit ''TRIM-001'', e_quantity = 5, e_rack = lit ''A1'',
       e_bin = lit ''01'', e_enteredBy = None\<rparr> seeded)) = Some 200 \<and>
   getMaterialByCode (lit ''TRIM-001'') seeded = Some trim001 \<and>
   30 \<le> quantity trim001 \<and> fitsInteger (quantity trim001 - 30) \<and>
   status (fst (issue_strict asciiPlatform Suc
      \<lparr>i_materialCode = lit ''TRIM-001'', i_quantity = 30, i_rack = lit ''A1'',
       i_bin = lit ''01'', i_issuedBy = None\<rparr> seeded)) = Some 200 \<and>
   status (fst (issue_simple Suc
      \<lparr>i_materialCode = lit ''TRIM-001'', i_quantity = 30, i_rack = lit ''A1'',
       i_bin = lit ''01'', i_issuedBy = None\<rparr> seeded)) = Some 200 \<and>
   (\<exists>m. getMaterialByCode (lit ''TRIM-001'') (snd (issue_simple Suc
          \<lparr>i_materialCode = lit ''TRIM-001'', i_quantity = 30, i_rack = lit ''A1'',
           i_bin = lit ''01'', i_issuedBy = None\<rparr> seeded)) = Some m \<and>
        quantity m = 70 \<and>
        logs (snd (issue_simple Suc
          \<lparr>i_materialCode = lit ''TRIM-001'', i_quantity = 30, i_rack = lit ''A1'',
           i_bin = lit ''01'', i_issuedBy = None\<rparr> seeded)) = logs seeded @
          [\<lparr>log_materialCode = lit ''TRIM-001'', log_action = lit ''issue'',
            log_quantity = 30, log_rack = lit ''A1'', log_bin = lit ''01'',
            log_enteredBy = None, log_issuedBy = None, log_userId = Some (lit ''system''),
            log_balanceQty = quantity m, log_timestamp = Suc 1\<rparr>])"
proof -
  have found: "getMaterialByCode (lit ''TRIM-001'') seeded = Some trim001"
    by (simp add: getMaterialByCode_def seeded_def trim001_def)
  have total: "quantityAfterEntry
      \<lparr>e_materialCode = lit ''TRIM-001'', e_quantity = 5, e_rack = lit ''A1'',
       e_bin = lit ''01'', e_enteredBy = None\<rparr> seeded = 105"
    by (simp add: quantityAfterEntry_def found) (simp add: trim001_def)
  have fits: "fitsInteger (quantityAfterEntry
      \<lparr>e_materialCode = lit ''TRIM-001'', e_quantity = 5, e_rack = lit ''A1'',
       e_bin = lit ''01'', e_enteredBy = None\<rparr> seeded)"
    unfolding total by (simp add: fitsInteger_def INT_MIN_def INT_MAX_def)
  have stock: "quantity trim001 = 100" and place: "rack trim001 = lit ''A1''"
    "bin trim001 = lit ''01''"
    by (simp_all add: trim001_def)
  have rest: "fitsInteger (quantity trim001 - 30)"
    by (simp add: stock fitsInteger_def INT_MIN_def INT_MAX_def)
  have enough: "30 \<le> quantity trim001"
    by (simp add: stock)
  note facts = successful_call_appends_one_log
        [where e = "\<lparr>e_materialCode = lit ''TRIM-001'', e_quantity = 5, e_rack = lit ''A1'',
           e_bin = lit ''01'', e_enteredBy = None\<rparr>"
         and i = "\<lparr>i_materialCode = lit ''TRIM-001'', i_quantity = 30, i_rack = lit ''A1'',
           i_bin = lit ''01'', i_issuedBy = None\<rparr>"
         and d = seeded and clk = Suc and p = asciiPlatform]
  have e1: "status (fst (entry_strict Suc
      \<lparr>e_materialCode = lit ''TRIM-001'', e_quantity = 5, e_rack = lit ''A1'',
       e_bin = lit ''01'', e_enteredBy = None\<rparr> seeded)) = Some 200"
    using facts fits found by simp
  have e2: "status (fst (entry_simple Suc
      \<lparr>e_materialCode = lit ''TRIM-001'', e_quantity = 5, e_rack = lit ''A1'',
       e_bin = lit ''01'', e_enteredBy = None\<rparr> seeded)) = Some 200"
    using facts fits found by simp
  have i1: "status (fst (issue_strict asciiPlatform Suc
      \<lparr>i_materialCode = lit ''TRIM-001'', i_quantity = 30, i_rack = lit ''A1'',
       i_bin = lit ''01'', i_issuedBy = None\<rparr> seeded)) = Some 200"
    using facts found rest enough place by simp
  have i2: "status (fst (issue_simple Suc
      \<lparr>i_materialCode = lit ''TRIM-001'', i_quantity = 30, i_rack = lit ''A1'',
       i_bin = lit ''01'', i_issuedBy = None\<rparr> seeded)) = Some 200"
    using facts found rest enough by simp
  have "\<exists>m. getMaterialByCode (lit ''TRIM-001'') (snd (issue_simple Suc
          \<lparr>i_materialCode = lit ''TRIM-001'', i_quantity = 30, i_rack = lit ''A1'',
           i_bin = lit ''01'', i_issuedBy = None\<rparr> seeded)) = Some m \<and>
        quantity m = quantity trim001 - 30 \<and>
        logs (snd (issue_simple Suc
          \<lparr>i_materialCode = lit ''TRIM-001'', i_quantity = 30, i_rack = lit ''A1'',
           i_bin = lit ''01'', i_issuedBy = None\<rparr> seeded)) = logs seeded @
          [\<lparr>log_materialCode = lit ''TRIM-001'', log_action = lit ''issue'',
            log_quantity = 30, log_rack = lit ''A1'', log_bin = lit ''01'',
            log_enteredBy = None, log_issuedBy = None, log_userId = Some (lit ''system''),
            log_balanceQty = quantity m, log_timestamp = Suc 1\<rparr>]"
    using facts found rest enough by simp
  then have i3: "\<exists>m. getMaterialByCode (lit ''TRIM-001'') (snd (issue_simple Suc
          \<lparr>i_materialCode = lit ''TRIM-001'', i_quantity = 30, i_rack = lit ''A1'',
           i_bin = lit ''01'', i_issuedBy = None\<rparr> seeded)) = Some m \<and>
        quantity m = 70 \<and>
        logs (snd (issue_simple Suc
          \<lparr>i_materialCode = lit ''TRIM-001'', i_quantity = 30, i_rack = lit ''A1'',
           i_bin = lit ''01'', i_issuedBy = None\<rparr> seeded)) = logs seeded @
          [\<lparr>log_materialCode = lit ''TRIM-001'', log_action = lit ''issue'',
            log_quantity = 30, log_rack = lit ''A1'', log_bin = lit ''01'',
            log_enteredBy = None, log_issuedBy = None, log_userId = Some (lit ''system''),
            log_balanceQty = quantity m, log_timestamp = Suc 1\<rparr>]"
    unfolding stock by simp
  show ?thesis
    using found fits rest enough e1 e2 i1 i2 i3 by (intro conjI)
qed


section \<open>The two variants\<close>

text \<open>
  C9. On the same request, clock and store the two entry handlers give the same answer
  and leave the same materials; the simple one leaves the bin transactions as they are,
  the strict one appends one when the entry succeeds, that is, when the quantity it
  hands to the store lies in the integer column; otherwise both are stopped by the store
  and nothing is written. The simple issue handler never touches the bin transactions
  and has no location check: when the material exists, the quantity suffices and the
  remainder lies in the column, it answers 200 and lowers the quantity, whatever rack and
  bin were supplied. The strict issue handler answers a location mismatch with 400 and
  leaves the store; in every other case it ends as the simple handler does and leaves
  the same materials and logs, and it appends one bin transaction exactly when the answer
  is 200.
\<close>

theorem variants_diverge:
  "fst (entry_strict clk e d) = fst (entry_simple clk e d) \<and>
   materials (snd (entry_strict clk e d)) = materials (snd (entry_simple clk e d)) \<and>
   binTransactions (snd (entry_simple clk e d)) = binTransactions d \<and>
   (fitsInteger (quantityAfterEntry e d) \<longrightarrow>
      status (fst (entry_strict clk e d)) =
        Some (if getMaterialByCode (e_materialCode e) d = None then 201 else 200) \<and>
      (\<exists>m. getMaterialByCode (e_materialCode e) (snd (entry_strict clk e d)) = Some m \<and>
        binTransactions (snd (entry_strict clk e d)) = binTransactions d @
          [\<lparr>tx_materialCode = e_materialCode e, tx_binLocation = e_rack e @ lit ''-'' @ e_bin e,
            tx_receivedQty = e_quantity e, tx_issuedQty = 0, tx_balanceQty = quantity m,
            tx_personName = e_enteredBy e, tx_createdAt = clk 2\<rparr>])) \<and>
   (\<not> fitsInteger (quantityAfterEntry e d) \<longrightarrow>
      entry_strict clk e d = (Threw OutOfRange, d) \<and>
      entry_simple clk e d = (Threw OutOfRange, d)) \<and>
   binTransactions (snd (issue_simple clk i d)) = binTransactions d \<and>
   (\<forall>x. getMaterialByCode (i_materialCode i) d = Some x \<and> i_quantity i \<le> quantity x \<and>
        fitsInteger (quantity x - i_quantity i) \<longrightarrow>
      status (fst (issue_simple clk i d)) = Some 200 \<and>
      getMaterialByCode (i_materialCode i) (snd (issue_simple clk i d)) =
        Some (x\<lparr>quantity := quantity x - i_quantity i, lastUpdated := clk 0\<rparr>)) \<and>
   (\<forall>x. getMaterialByCode (i_materialCode i) d = Some x \<and>
        (toUpperCase p (rack x) \<noteq> toUpperCase p (i_rack i) \<or> bin x \<noteq> i_bin i) \<longrightarrow>
      issue_strict p clk i d = (Response 400 (locationMismatch x), d)) \<and>
   (\<not> (\<exists>x. getMaterialByCode (i_materialCode i) d = Some x \<and>
        (toUpperCase p (rack x) \<noteq> toUpperCase p (i_rack i) \<or> bin x \<noteq> i_bin i)) \<longrightarrow>
      fst (issue_strict p clk i d) = fst (issue_simple clk i d) \<and>
      materials (snd (issue_strict p clk i d)) = materials (snd (issue_simple clk i d)) \<and>
      logs (snd (issue_strict p clk i d)) = logs (snd (issue_simple clk i d)) \<and>
      (status (fst (issue_strict p clk i d)) \<noteq> Some 200 \<longrightarrow>
         binTransactions (snd (issue_strict p clk i d)) = binTransactions d) \<and>
      (status (fst (issue_strict p clk i d)) = Some 200 \<longrightarrow>
         (\<exists>m. getMaterialByCode (i_materialCode i) (snd (issue_strict p clk i d)) = Some m \<and>
            binTransactions (snd (issue_strict p clk i d)) = binTransactions d @
              [\<lparr>tx_materialCode = i_materialCode i,
                tx_binLocation = i_rack i @ lit ''-'' @ i_bin i, tx_receivedQty = 0,
                tx_issuedQty = i_quantity i, tx_balanceQty = quantity m,
                tx_personName = i_issuedBy i, tx_createdAt = clk 2\<rparr>])))"
proof -
  have entry_same: "fst (entry_strict clk e d) = fst (entry_simple clk e d) \<and>
   materials (snd (entry_strict clk e d)) = materials (snd (entry_simple clk e d)) \<and>
   binTransactions (snd (entry_simple clk e d)) = binTransactions d"
  proof (cases "getMaterialByCode (e_materialCode e) d")
    case None
    show ?thesis
    proof (cases "fitsInteger (e_quantity e)")
      case True
      show ?thesis
        by (simp add: entry_strict_fresh [OF None True] entry_simple_fresh [OF None True])
    next
      case False
      show ?thesis
        by (simp add: entry_fresh_rejected [OF None False])
    qed
  next
    case (Some x)
    show ?thesis
    proof (cases "fitsInteger (quantity x + e_quantity e)")
      case True
      show ?thesis
        by (simp add: entry_strict_existing [OF Some True] entry_simple_existing [OF Some True])
    next
      case False
      show ?thesis
        by (simp add: entry_existing_rejected [OF Some False])
    qed
  qed
  have entry_tx: "fitsInteger (quantityAfterEntry e d) \<longrightarrow>
      status (fst (entry_strict clk e d)) =
        Some (if getMaterialByCode (e_materialCode e) d = None then 201 else 200) \<and>
      (\<exists>m. getMaterialByCode (e_materialCode e) (snd (entry_strict clk e d)) = Some m \<and>
        binTransactions (snd (entry_strict clk e d)) = binTransactions d @
          [\<lparr>tx_materialCode = e_materialCode e, tx_binLocation = e_rack e @ lit ''-'' @ e_bin e,
            tx_receivedQty = e_quantity e, tx_issuedQty = 0, tx_balanceQty = quantity m,
            tx_personName = e_enteredBy e, tx_createdAt = clk 2\<rparr>])"
  proof
    assume fits: "fitsInteger (quantityAfterEntry e d)"
    have "status (fst (entry_strict clk e d)) =
        Some (if getMaterialByCode (e_materialCode e) d = None then 201 else 200)"
      using fits entry_cases [of e d clk] by blast
    moreover have "\<exists>m. getMaterialByCode (e_materialCode e) (snd (entry_strict clk e d)) = Some m \<and>
        binTransactions (snd (entry_strict clk e d)) = binTransactions d @
          [\<lparr>tx_materialCode = e_materialCode e, tx_binLocation = e_rack e @ lit ''-'' @ e_bin e,
            tx_receivedQty = e_quantity e, tx_issuedQty = 0, tx_balanceQty = quantity m,
            tx_personName = e_enteredBy e, tx_createdAt = clk 2\<rparr>]"
      using entry_strict_log [OF fits, of clk] by blast
    ultimately show "status (fst (entry_strict clk e d)) =
        Some (if getMaterialByCode (e_materialCode e) d = None then 201 else 200) \<and>
      (\<exists>m. getMaterialByCode (e_materialCode e) (snd (entry_strict clk e d)) = Some m \<and>
        binTransactions (snd (entry_strict clk e d)) = binTransactions d @
          [\<lparr>tx_materialCode = e_materialCode e, tx_binLocation = e_rack e @ lit ''-'' @ e_bin e,
            tx_receivedQty = e_quantity e, tx_issuedQty = 0, tx_balanceQty = quantity m,
            tx_personName = e_enteredBy e, tx_createdAt = clk 2\<rparr>])"
      by (rule conjI)
  qed
  have entry_stop: "\<not> fitsInteger (quantityAfterEntry e d) \<longrightarrow>
      entry_strict clk e d = (Threw OutOfRange, d) \<and>
      entry_simple clk e d = (Threw OutOfRange, d)"
    using entry_cases [of e d clk] by blast
  have simple_tx: "binTransactions (snd (issue_simple clk i d)) = binTransactions d"
  proof (cases "status (fst (issue_simple clk i d)) = Some 200")
    case True
    then obtain x where x: "getMaterialByCode (i_materialCode i) d = Some x"
      "i_quantity i \<le> quantity x" "fitsInteger (quantity x - i_quantity i)"
      using issue_simple_cases [of i d clk] by auto
    show ?thesis using issue_simple_log [OF x, of clk] by simp
  next
    case False
    then show ?thesis using issue_simple_cases [of i d clk] by auto
  qed
  have simple_ok: "\<forall>x. getMaterialByCode (i_materialCode i) d = Some x \<and>
      i_quantity i \<le> quantity x \<and> fitsInteger (quantity x - i_quantity i) \<longrightarrow>
      status (fst (issue_simple clk i d)) = Some 200 \<and>
      getMaterialByCode (i_materialCode i) (snd (issue_simple clk i d)) =
        Some (x\<lparr>quantity := quantity x - i_quantity i, lastUpdated := clk 0\<rparr>)"
  proof (intro allI impI)
    fix x
    assume "getMaterialByCode (i_materialCode i) d = Some x \<and> i_quantity i \<le> quantity x \<and>
      fitsInteger (quantity x - i_quantity i)"
    then have x: "getMaterialByCode (i_materialCode i) d = Some x" "i_quantity i \<le> quantity x"
      "fitsInteger (quantity x - i_quantity i)"
      by simp_all
    show "status (fst (issue_simple clk i d)) = Some 200 \<and>
      getMaterialByCode (i_materialCode i) (snd (issue_simple clk i d)) =
        Some (x\<lparr>quantity := quantity x - i_quantity i, lastUpdated := clk 0\<rparr>)"
      using issue_simple_log [OF x, of clk] by simp
  qed
  have strict_mismatch: "\<forall>x. getMaterialByCode (i_materialCode i) d = Some x \<and>
        (toUpperCase p (rack x) \<noteq> toUpperCase p (i_rack i) \<or> bin x \<noteq> i_bin i) \<longrightarrow>
      issue_strict p clk i d = (Response 400 (locationMismatch x), d)"
    using issue_strict_mismatch [of i d _ p clk] by blast
  have strict_else: "\<not> (\<exists>x. getMaterialByCode (i_materialCode i) d = Some x \<and>
        (toUpperCase p (rack x) \<noteq> toUpperCase p (i_rack i) \<or> bin x \<noteq> i_bin i)) \<longrightarrow>
      fst (issue_strict p clk i d) = fst (issue_simple clk i d) \<and>
      materials (snd (issue_strict p clk i d)) = materials (snd (issue_simple clk i d)) \<and>
      logs (snd (issue_strict p clk i d)) = logs (snd (issue_simple clk i d)) \<and>
      (status (fst (issue_strict p clk i d)) \<noteq> Some 200 \<longrightarrow>
         binTransactions (snd (issue_strict p clk i d)) = binTransactions d) \<and>
      (status (fst (issue_strict p clk i d)) = Some 200 \<longrightarrow>
         (\<exists>m. getMaterialByCode (i_materialCode i) (snd (issue_strict p clk i d)) = Some m \<and>
            binTransactions (snd (issue_strict p clk i d)) = binTransactions d @
              [\<lparr>tx_materialCode = i_materialCode i,
                tx_binLocation = i_rack i @ lit ''-'' @ i_bin i, tx_receivedQty = 0,
                tx_issuedQty = i_quantity i, tx_balanceQty = quantity m,
                tx_personName = i_issuedBy i, tx_createdAt = clk 2\<rparr>]))"
  proof (intro impI)
    assume nomis: "\<not> (\<exists>x. getMaterialByCode (i_materialCode i) d = Some x \<and>
        (toUpperCase p (rack x) \<noteq> toUpperCase p (i_rack i) \<or> bin x \<noteq> i_bin i))"
    show "fst (issue_strict p clk i d) = fst (issue_simple clk i d) \<and>
      materials (snd (issue_strict p clk i d)) = materials (snd (issue_simple clk i d)) \<and>
      logs (snd (issue_strict p clk i d)) = logs (snd (issue_simple clk i d)) \<and>
      (status (fst (issue_strict p clk i d)) \<noteq> Some 200 \<longrightarrow>
         binTransactions (snd (issue_strict p clk i d)) = binTransactions d) \<and>
      (status (fst (issue_strict p clk i d)) = Some 200 \<longrightarrow>
         (\<exists>m. getMaterialByCode (i_materialCode i) (snd (issue_strict p clk i d)) = Some m \<and>
            binTransactions (snd (issue_strict p clk i d)) = binTransactions d @
              [\<lparr>tx_materialCode = i_materialCode i,
                tx_binLocation = i_rack i @ lit ''-'' @ i_bin i, tx_receivedQty = 0,
                tx_issuedQty = i_quantity i, tx_balanceQty = quantity m,
                tx_personName = i_issuedBy i, tx_createdAt = clk 2\<rparr>]))"
    proof (cases "getMaterialByCode (i_materialCode i) d")
      case None
      then show ?thesis by (simp add: issue_strict_absent issue_simple_absent)
    next
      case (Some x)
      with nomis have loc: "toUpperCase p (rack x) = toUpperCase p (i_rack i)" "bin x = i_bin i"
        by simp_all
      show ?thesis
      proof (cases "quantity x < i_quantity i")
        case True
        then show ?thesis
          by (simp add: issue_strict_insufficient [OF Some loc True]
              issue_simple_insufficient [OF Some True])
      next
        case False
        then have le: "i_quantity i \<le> quantity x" by simp
        show ?thesis
        proof (cases "fitsInteger (quantity x - i_quantity i)")
          case True
          show ?thesis
            using issue_strict_log [OF Some loc le True, of clk]
              issue_simple_log [OF Some le True, of clk]
            by (simp add: issue_strict_ok [OF Some loc le True]
                issue_simple_ok [OF Some le True])
        next
          case False
          show ?thesis
            by (simp add: issue_strict_rejected [OF Some loc le False]
                issue_simple_rejected [OF Some le False])
        qed
      qed
    qed
  qed
  from entry_same entry_tx entry_stop simple_tx simple_ok strict_mismatch strict_else
  show ?thesis
    by (intro conjI) (elim conjE, assumption)+
qed

theorem variants_diverge_witness:
  "getMaterialByCode (lit ''TRIM-001'') seeded = Some trim001 \<and> bin trim001 \<noteq> lit ''02'' \<and>
   30 \<le> quantity trim001 \<and> fitsInteger (quantity trim001 - 30) \<and>
   issue_strict asciiPlatform Suc
     \<lparr>i_materialCode = lit ''TRIM-001'', i_quantity = 30, i_rack = lit ''A1'',
      i_bin = lit ''02'', i_issuedBy = None\<rparr> seeded =
     (Response 400 (locationMismatch trim001), seeded) \<and>
   status (fst (issue_simple Suc \<lparr>i_materialCode = lit ''TRIM-001'', i_quantity = 30,
      i_rack = lit ''A1'', i_bin = lit ''02'', i_issuedBy = None\<rparr> seeded)) = Some 200"
proof -
  have found: "getMaterialByCode (lit ''TRIM-001'') seeded = Some trim001"
    by (simp add: getMaterialByCode_def seeded_def trim001_def)
  have other_bin: "bin trim001 \<noteq> lit ''02''" and enough: "30 \<le> quantity trim001"
    and rest: "fitsInteger (quantity trim001 - 30)"
    by (simp_all add: trim001_def lit_def fitsInteger_def INT_MIN_def INT_MAX_def)
  note facts = variants_diverge
        [where i = "\<lparr>i_materialCode = lit ''TRIM-001'', i_quantity = 30, i_rack = lit ''A1'',
           i_bin = lit ''02'', i_issuedBy = None\<rparr>" and d = seeded and clk = Suc
         and p = asciiPlatform]
  have strict: "issue_strict asciiPlatform Suc
     \<lparr>i_materialCode = lit ''TRIM-001'', i_quantity = 30, i_rack = lit ''A1'',
      i_bin = lit ''02'', i_issuedBy = None\<rparr> seeded =
     (Response 400 (locationMismatch trim001), seeded)"
    using facts found other_bin by simp
  have simple: "status (fst (issue_simple Suc \<lparr>i_materialCode = lit ''TRIM-001'',
      i_quantity = 30, i_rack = lit ''A1'', i_bin = lit ''02'', i_issuedBy = None\<rparr> seeded)) =
      Some 200"
    using facts found enough rest by simp
  show ?thesis
    using found other_bin enough rest strict simple by (intro conjI)
qed

section \<open>The location check of the strict issue\<close>

lemma keepsDigits_asciiPlatform: "keepsDigits asciiPlatform"
proof -
  have "asciiUpper s = s" if "\<forall>c \<in> set s. isDigit c" for s
    using that by (induction s) (auto simp: asciiUpper_def isDigit_def)
  then show ?thesis
    by (simp add: keepsDigits_def asciiPlatform_def)
qed

lemma binCode_equalsIgnoreCase:
  assumes "keepsDigits p" and "binCode a" and "binCode b"
  shows "equalsIgnoreCase p a b = (a = b)"
proof -
  from assms have "toUpperCase p a = a" and "toUpperCase p b = b"
    by (simp_all add: keepsDigits_def binCode_def)
  then show ?thesis
    by (simp add: equalsIgnoreCase_def)
qed

text \<open>The check as the handler writes it, for all strings: the racks are compared in upper
  case, the bins as they are.\<close>

lemma issue_strict_location_exact:
  assumes "getMaterialByCode (i_materialCode i) d = Some x"
  shows "(issue_strict p clk i d = (Response 400 (locationMismatch x), d)) =
           (toUpperCase p (rack x) \<noteq> toUpperCase p (i_rack i) \<or> bin x \<noteq> i_bin i)"
proof (cases "toUpperCase p (rack x) \<noteq> toUpperCase p (i_rack i) \<or> bin x \<noteq> i_bin i")
  case True
  then show ?thesis
    using issue_strict_mismatch [OF assms, of p clk] by simp
next
  case False
  then have loc: "toUpperCase p (rack x) = toUpperCase p (i_rack i)" "bin x = i_bin i"
    by simp_all
  have "issue_strict p clk i d \<noteq> (Response 400 (locationMismatch x), d)"
  proof (cases "quantity x < i_quantity i")
    case True
    then show ?thesis
      by (simp add: issue_strict_insufficient [OF assms loc True] locationMismatch_def lit_def)
  next
    case nl: False
    then have le: "i_quantity i \<le> quantity x" by simp
    show ?thesis
    proof (cases "fitsInteger (quantity x - i_quantity i)")
      case True
      show ?thesis by (simp add: issue_strict_ok [OF assms loc le True])
    next
      case False
      show ?thesis by (simp add: issue_strict_rejected [OF assms loc le False])
    qed
  qed
  with False show ?thesis by simp
qed

text \<open>The bins of the store stay in the vocabulary.\<close>

lemma binsInVocabulary_entry:
  assumes "binsInVocabulary d" and "binCode (e_bin e)"
  shows "binsInVocabulary (snd (entry_strict clk e d))"
    and "binsInVocabulary (snd (entry_simple clk e d))"
proof -
  have both: "binsInVocabulary (snd (entry_strict clk e d)) \<and>
              binsInVocabulary (snd (entry_simple clk e d))"
  proof (cases "fitsInteger (quantityAfterEntry e d)")
    case False
    with assms(1) show ?thesis using entry_cases [of e d clk] by auto
  next
    case True
    show ?thesis
    proof (cases "getMaterialByCode (e_materialCode e) d")
      case None
      with True have fits: "fitsInteger (e_quantity e)" by (simp add: quantityAfterEntry_def)
      from assms show ?thesis
        by (simp add: entry_strict_fresh [OF None fits] entry_simple_fresh [OF None fits]
            binsInVocabulary_def)
    next
      case (Some x)
      with True have fits: "fitsInteger (quantity x + e_quantity e)"
        by (simp add: quantityAfterEntry_def)
      from assms show ?thesis
        by (auto simp: entry_strict_existing [OF Some fits] entry_simple_existing [OF Some fits]
            binsInVocabulary_def)
    qed
  qed
  from both show "binsInVocabulary (snd (entry_strict clk e d))" by simp
  from both show "binsInVocabulary (snd (entry_simple clk e d))" by simp
qed

lemma binsInVocabulary_issue:
  assumes "binsInVocabulary d"
  shows "binsInVocabulary (snd (issue_strict p clk i d))"
    and "binsInVocabulary (snd (issue_simple clk i d))"
proof -
  show "binsInVocabulary (snd (issue_strict p clk i d))"
  proof (cases "status (fst (issue_strict p clk i d)) = Some 200")
    case True
    then obtain x where x: "getMaterialByCode (i_materialCode i) d = Some x"
      "toUpperCase p (rack x) = toUpperCase p (i_rack i)" "bin x = i_bin i"
      "i_quantity i \<le> quantity x" "fitsInteger (quantity x - i_quantity i)"
      using issue_strict_cases [of i d p clk] by auto
    from assms show ?thesis
      by (auto simp: issue_strict_ok [OF x] binsInVocabulary_def)
  next
    case False
    then have "snd (issue_strict p clk i d) = d"
      using issue_strict_cases [of i d p clk] by auto
    with assms show ?thesis by simp
  qed
  show "binsInVocabulary (snd (issue_simple clk i d))"
  proof (cases "status (fst (issue_simple clk i d)) = Some 200")
    case True
    then obtain x where x: "getMaterialByCode (i_materialCode i) d = Some x"
      "i_quantity i \<le> quantity x" "fitsInteger (quantity x - i_quantity i)"
      using issue_simple_cases [of i d clk] by auto
    from assms show ?thesis
      by (auto simp: issue_simple_ok [OF x] binsInVocabulary_def)
  next
    case False
    then have "snd (issue_simple clk i d) = d"
      using issue_simple_cases [of i d clk] by auto
    with assms show ?thesis by simp
  qed
qed

lemma binsInVocabulary_step:
  assumes "binsInVocabulary d" and "entersBinCode r"
  shows "binsInVocabulary (step_strict p r d)" and "binsInVocabulary (step_simple r d)"
proof -
  show "binsInVocabulary (step_strict p r d)"
  proof (cases r)
    case (Entry clk e)
    with assms show ?thesis by (simp add: binsInVocabulary_entry(1))
  next
    case (Issue clk i)
    with assms show ?thesis by (simp add: binsInVocabulary_issue(1))
  next
    case (DeleteMaterial c)
    with assms show ?thesis by (simp add: deleteMaterial_def binsInVocabulary_def)
  next
    case (ResetInventory now)
    with assms show ?thesis by (simp add: resetInventory_def binsInVocabulary_def)
  next
    case ClearLogs
    with assms show ?thesis by (simp add: clearLogs_def binsInVocabulary_def)
  qed
  show "binsInVocabulary (step_simple r d)"
  proof (cases r)
    case (Entry clk e)
    with assms show ?thesis by (simp add: binsInVocabulary_entry(2))
  next
    case (Issue clk i)
    with assms show ?thesis by (simp add: binsInVocabulary_issue(2))
  next
    case (DeleteMaterial c)
    with assms show ?thesis by (simp add: deleteMaterial_def binsInVocabulary_def)
  next
    case (ResetInventory now)
    with assms show ?thesis by (simp add: resetInventory_def binsInVocabulary_def)
  next
    case ClearLogs
    with assms show ?thesis by (simp add: clearLogs_def binsInVocabulary_def)
  qed
qed

lemma binsInVocabulary_run:
  assumes "\<And>r d. binsInVocabulary d \<Longrightarrow> entersBinCode r \<Longrightarrow> binsInVocabulary (step r d)"
  shows "binsInVocabulary d \<Longrightarrow> \<forall>r \<in> set rs. entersBinCode r \<Longrightarrow>
         binsInVocabulary (run step rs d)"
  by (induction rs arbitrary: d) (simp_all add: assms)

lemma binCode_seed_bins: "binCode (lit ''01'')" "binCode (lit ''15'')" "binCode (lit ''84'')"
  by (simp_all add: binCode_def isDigit_def lit_def)

lemma binsInVocabulary_seedMaterials:
  "binsInVocabulary d \<Longrightarrow> seedMaterials clk d = Inr d' \<Longrightarrow> binsInVocabulary d'"
  by (auto simp: seedMaterials_def createMaterial_def binsInVocabulary_def Let_def
      binCode_seed_bins split: if_splits)

lemma binsInVocabulary_started:
  "binsInVocabulary (started (seed_strict p) clk)"
  "binsInVocabulary (started (seed_simple p) clk)"
proof -
  have e: "binsInVocabulary emptyStore"
    by (simp add: binsInVocabulary_def emptyStore_def)
  show "binsInVocabulary (started (seed_strict p) clk)"
    using e binsInVocabulary_seedMaterials [OF e, of clk]
    by (auto simp: started_def seed_strict_def getMaterials_def split: sum.splits if_splits)
  show "binsInVocabulary (started (seed_simple p) clk)"
    using e binsInVocabulary_seedMaterials [OF e, of clk]
    by (auto simp: started_def seed_simple_def getMaterials_def createLog_result
        binsInVocabulary_def split: sum.splits if_splits)
qed

lemma reachable_bins_in_vocabulary:
  assumes "\<forall>r \<in> set rs. entersBinCode r"
    and "getMaterialByCode c (run (step_strict p) rs (started (seed_strict p) clk)) = Some x"
  shows "binCode (bin x)"
proof -
  have "binsInVocabulary (run (step_strict p) rs (started (seed_strict p) clk))"
    using binsInVocabulary_started(1) assms(1)
    by (rule binsInVocabulary_run [rotated]) (rule binsInVocabulary_step(1))
  moreover from assms(2)
  have "x \<in> set (materials (run (step_strict p) rs (started (seed_strict p) clk)))"
    by (auto simp: getMaterialByCode_def find_Some_iff)
  ultimately show ?thesis
    by (simp add: binsInVocabulary_def)
qed

text \<open>
  C1. In the strict variant, take an issue on an existing material whose recorded bin and
  supplied bin are bin codes of the location vocabulary (two decimal digits, which no
  case mapping changes). If the supplied rack or bin differs from the recorded one
  without regard to case, the answer is the location mismatch with status 400 and the
  store is unchanged. If both agree without regard to case, the answer is not the
  location mismatch.
\<close>

theorem issue_strict_location_check:
  assumes "getMaterialByCode (i_materialCode i) d = Some x"
    and "binCode (bin x)" and "binCode (i_bin i)"
    and "keepsDigits p"
  shows "(\<not> equalsIgnoreCase p (rack x) (i_rack i) \<or> \<not> equalsIgnoreCase p (bin x) (i_bin i) \<longrightarrow>
            issue_strict p clk i d = (Response 400 (locationMismatch x), d)) \<and>
         (equalsIgnoreCase p (rack x) (i_rack i) \<and> equalsIgnoreCase p (bin x) (i_bin i) \<longrightarrow>
            fst (issue_strict p clk i d) \<noteq> Response 400 (locationMismatch x))"
proof -
  have bins: "equalsIgnoreCase p (bin x) (i_bin i) = (bin x = i_bin i)"
    by (rule binCode_equalsIgnoreCase [OF assms(4) assms(2) assms(3)])
  have exact: "(issue_strict p clk i d = (Response 400 (locationMismatch x), d)) =
           (toUpperCase p (rack x) \<noteq> toUpperCase p (i_rack i) \<or> bin x \<noteq> i_bin i)"
    by (rule issue_strict_location_exact [OF assms(1)])
  have unchanged: "fst (issue_strict p clk i d) = Response 400 (locationMismatch x) \<Longrightarrow>
      issue_strict p clk i d = (Response 400 (locationMismatch x), d)"
  proof -
    assume r: "fst (issue_strict p clk i d) = Response 400 (locationMismatch x)"
    then have "status (fst (issue_strict p clk i d)) \<noteq> Some 200" by simp
    then have "snd (issue_strict p clk i d) = d"
      using issue_strict_cases [of i d p clk] by auto
    with r show ?thesis by (simp add: prod_eq_iff)
  qed
  show ?thesis
  proof (intro conjI impI)
    assume "\<not> equalsIgnoreCase p (rack x) (i_rack i) \<or> \<not> equalsIgnoreCase p (bin x) (i_bin i)"
    then have "toUpperCase p (rack x) \<noteq> toUpperCase p (i_rack i) \<or> bin x \<noteq> i_bin i"
      by (simp add: bins) (simp add: equalsIgnoreCase_def)
    then show "issue_strict p clk i d = (Response 400 (locationMismatch x), d)"
      by (simp add: exact)
  next
    assume "equalsIgnoreCase p (rack x) (i_rack i) \<and> equalsIgnoreCase p (bin x) (i_bin i)"
    then have "\<not> (toUpperCase p (rack x) \<noteq> toUpperCase p (i_rack i) \<or> bin x \<noteq> i_bin i)"
      by (simp add: bins) (simp add: equalsIgnoreCase_def)
    then have "issue_strict p clk i d \<noteq> (Response 400 (locationMismatch x), d)"
      by (simp add: exact)
    then show "fst (issue_strict p clk i d) \<noteq> Response 400 (locationMismatch x)"
      using unchanged by blast
  qed
qed

theorem issue_strict_location_check_witness:
  "getMaterialByCode (lit ''TRIM-001'') seeded = Some trim001 \<and>
   binCode (bin trim001) \<and> binCode (lit ''02'') \<and> binCode (lit ''01'') \<and>
   keepsDigits asciiPlatform \<and>
   \<not> equalsIgnoreCase asciiPlatform (bin trim001) (lit ''02'') \<and>
   equalsIgnoreCase asciiPlatform (rack trim001) (lit ''a1'') \<and>
   equalsIgnoreCase asciiPlatform (bin trim001) (lit ''01'') \<and>
   issue_strict asciiPlatform Suc
     \<lparr>i_materialCode = lit ''TRIM-001'', i_quantity = 30, i_rack = lit ''a1'',
      i_bin = lit ''02'', i_issuedBy = None\<rparr> seeded =
     (Response 400 (locationMismatch trim001), seeded) \<and>
   fst (issue_strict asciiPlatform Suc
     \<lparr>i_materialCode = lit ''TRIM-001'', i_quantity = 30, i_rack = lit ''a1'',
      i_bin = lit ''01'', i_issuedBy = None\<rparr> seeded) \<noteq>
     Response 400 (locationMismatch trim001)"
proof -
  have found: "getMaterialByCode (lit ''TRIM-001'') seeded = Some trim001"
    by (simp add: getMaterialByCode_def seeded_def trim001_def)
  have b0: "binCode (bin trim001)" and b1: "binCode (lit ''01'')" and b2: "binCode (lit ''02'')"
    by (simp_all add: trim001_def binCode_def isDigit_def lit_def)
  have other_bin: "\<not> equalsIgnoreCase asciiPlatform (bin trim001) (lit ''02'')"
    by (simp add: binCode_equalsIgnoreCase [OF keepsDigits_asciiPlatform b0 b2])
       (simp add: trim001_def lit_def)
  have same_bin: "equalsIgnoreCase asciiPlatform (bin trim001) (lit ''01'')"
    by (simp add: binCode_equalsIgnoreCase [OF keepsDigits_asciiPlatform b0 b1])
       (simp add: trim001_def)
  have same_rack: "equalsIgnoreCase asciiPlatform (rack trim001) (lit ''a1'')"
    by (simp add: equalsIgnoreCase_def asciiPlatform_def asciiUpper_def trim001_def lit_def)
  have mismatch: "issue_strict asciiPlatform Suc
     \<lparr>i_materialCode = lit ''TRIM-001'', i_quantity = 30, i_rack = lit ''a1'',
      i_bin = lit ''02'', i_issuedBy = None\<rparr> seeded =
     (Response 400 (locationMismatch trim001), seeded)"
    using issue_strict_location_check
        [of "\<lparr>i_materialCode = lit ''TRIM-001'', i_quantity = 30, i_rack = lit ''a1'',
           i_bin = lit ''02'', i_issuedBy = None\<rparr>" seeded trim001 asciiPlatform Suc]
      found b0 b2 keepsDigits_asciiPlatform other_bin
    by simp
  have match: "fst (issue_strict asciiPlatform Suc
     \<lparr>i_materialCode = lit ''TRIM-001'', i_quantity = 30, i_rack = lit ''a1'',
      i_bin = lit ''01'', i_issuedBy = None\<rparr> seeded) \<noteq>
     Response 400 (locationMismatch trim001)"
    using issue_strict_location_check
        [of "\<lparr>i_materialCode = lit ''TRIM-001'', i_quantity = 30, i_rack = lit ''a1'',
           i_bin = lit ''01'', i_issuedBy = None\<rparr>" seeded trim001 asciiPlatform Suc]
      found b0 b1 keepsDigits_asciiPlatform same_rack same_bin
    by simp
  show ?thesis
    using found b0 b1 b2 keepsDigits_asciiPlatform other_bin same_rack same_bin mismatch match
    by (intro conjI)
qed

section \<open>Sequences of entries\<close>








section \<open>Quantities stay non-negative\<close>

lemma nonneg_entry:
  assumes "quantitiesNonNegative d" and "0 < e_quantity i"
  shows "quantitiesNonNegative (snd (entry_strict clk i d))"
    and "quantitiesNonNegative (snd (entry_simple clk i d))"
proof -
  have both: "quantitiesNonNegative (snd (entry_strict clk i d)) \<and>
              quantitiesNonNegative (snd (entry_simple clk i d))"
  proof (cases "fitsInteger (quantityAfterEntry i d)")
    case False
    with assms(1) show ?thesis using entry_cases [of i d clk] by auto
  next
    case True
    show ?thesis
    proof (cases "getMaterialByCode (e_materialCode i) d")
      case None
      with True have fits: "fitsInteger (e_quantity i)" by (simp add: quantityAfterEntry_def)
      from assms show ?thesis
        by (simp add: entry_strict_fresh [OF None fits] entry_simple_fresh [OF None fits]
            quantitiesNonNegative_def)
    next
      case (Some x)
      with True have fits: "fitsInteger (quantity x + e_quantity i)"
        by (simp add: quantityAfterEntry_def)
      from Some have "x \<in> set (materials d)"
        by (auto simp: getMaterialByCode_def find_Some_iff)
      with assms(1) have "0 \<le> quantity x"
        by (simp add: quantitiesNonNegative_def)
      with assms show ?thesis
        by (auto simp: entry_strict_existing [OF Some fits] entry_simple_existing [OF Some fits]
            quantitiesNonNegative_def)
    qed
  qed
  from both show "quantitiesNonNegative (snd (entry_strict clk i d))" by simp
  from both show "quantitiesNonNegative (snd (entry_simple clk i d))" by simp
qed

lemma nonneg_issue_strict:
  assumes "quantitiesNonNegative d"
  shows "quantitiesNonNegative (snd (issue_strict p clk i d))"
proof (cases "status (fst (issue_strict p clk i d)) = Some 200")
  case True
  then obtain x where x: "getMaterialByCode (i_materialCode i) d = Some x"
    "toUpperCase p (rack x) = toUpperCase p (i_rack i)" "bin x = i_bin i"
    "i_quantity i \<le> quantity x" "fitsInteger (quantity x - i_quantity i)"
    using issue_strict_cases [of i d p clk] by auto
  with assms show ?thesis
    by (auto simp: issue_strict_ok [OF x] quantitiesNonNegative_def)
next
  case False
  then have "snd (issue_strict p clk i d) = d"
    using issue_strict_cases [of i d p clk] by auto
  with assms show ?thesis by simp
qed

lemma nonneg_issue_simple:
  assumes "quantitiesNonNegative d"
  shows "quantitiesNonNegative (snd (issue_simple clk i d))"
proof (cases "status (fst (issue_simple clk i d)) = Some 200")
  case True
  then obtain x where x: "getMaterialByCode (i_materialCode i) d = Some x"
    "i_quantity i \<le> quantity x" "fitsInteger (quantity x - i_quantity i)"
    using issue_simple_cases [of i d clk] by auto
  with assms show ?thesis
    by (auto simp: issue_simple_ok [OF x] quantitiesNonNegative_def)
next
  case False
  then have "snd (issue_simple clk i d) = d"
    using issue_simple_cases [of i d clk] by auto
  with assms show ?thesis by simp
qed

lemma nonneg_step:
  assumes "quantitiesNonNegative d"
  shows "quantitiesNonNegative (step_strict p r d)" and "quantitiesNonNegative (step_simple r d)"
proof -
  show "quantitiesNonNegative (step_strict p r d)"
  proof (cases r)
    case (Entry clk i)
    with assms show ?thesis by (simp add: nonneg_entry(1) validEntry_def)
  next
    case (Issue clk i)
    with assms show ?thesis by (simp add: nonneg_issue_strict)
  next
    case (DeleteMaterial c)
    with assms show ?thesis by (simp add: deleteMaterial_def quantitiesNonNegative_def)
  next
    case (ResetInventory now)
    then show ?thesis by (simp add: resetInventory_def quantitiesNonNegative_def)
  next
    case ClearLogs
    with assms show ?thesis by (simp add: clearLogs_def quantitiesNonNegative_def)
  qed
  show "quantitiesNonNegative (step_simple r d)"
  proof (cases r)
    case (Entry clk i)
    with assms show ?thesis by (simp add: nonneg_entry(2) validEntry_def)
  next
    case (Issue clk i)
    with assms show ?thesis by (simp add: nonneg_issue_simple)
  next
    case (DeleteMaterial c)
    with assms show ?thesis by (simp add: deleteMaterial_def quantitiesNonNegative_def)
  next
    case (ResetInventory now)
    then show ?thesis by (simp add: resetInventory_def quantitiesNonNegative_def)
  next
    case ClearLogs
    with assms show ?thesis by (simp add: clearLogs_def quantitiesNonNegative_def)
  qed
qed

lemma nonneg_run:
  assumes "\<And>r d. quantitiesNonNegative d \<Longrightarrow> quantitiesNonNegative (step r d)"
  shows "quantitiesNonNegative d \<Longrightarrow> quantitiesNonNegative (run step rs d)"
  by (induction rs arbitrary: d) (simp_all add: assms)

lemma nonneg_seedMaterials:
  "quantitiesNonNegative d \<Longrightarrow> seedMaterials clk d = Inr d' \<Longrightarrow> quantitiesNonNegative d'"
  by (auto simp: seedMaterials_def createMaterial_def quantitiesNonNegative_def Let_def
      split: if_splits)

lemma nonneg_started:
  "quantitiesNonNegative (started (seed_strict p) clk)"
  "quantitiesNonNegative (started (seed_simple p) clk)"
proof -
  have e: "quantitiesNonNegative emptyStore"
    by (simp add: quantitiesNonNegative_def emptyStore_def)
  show "quantitiesNonNegative (started (seed_strict p) clk)"
    using e nonneg_seedMaterials [OF e, of clk]
    by (auto simp: started_def seed_strict_def getMaterials_def split: sum.splits if_splits)
  show "quantitiesNonNegative (started (seed_simple p) clk)"
    using e nonneg_seedMaterials [OF e, of clk]
    by (auto simp: started_def seed_simple_def getMaterials_def createLog_result
        quantitiesNonNegative_def split: sum.splits if_splits)
qed

text \<open>
  C7. No material ever has a negative quantity. An entry that passed the request schema
  adds a positive quantity, an issue subtracts only when the stock is at least the
  requested quantity, a reset sets every quantity to 0, and deleting a material or
  clearing the logs changes no quantity. So every request keeps the property, and every
  store reached by a sequence of requests from a store with the property, in particular
  from the store after start-up, has it. This holds for both variants.
\<close>

theorem quantities_never_negative:
  "(quantitiesNonNegative d \<and> 0 < e_quantity e \<longrightarrow>
      quantitiesNonNegative (snd (entry_strict clk e d)) \<and>
      quantitiesNonNegative (snd (entry_simple clk e d))) \<and>
   (quantitiesNonNegative d \<longrightarrow>
      quantitiesNonNegative (snd (issue_strict p clk i d)) \<and>
      quantitiesNonNegative (snd (issue_simple clk i d))) \<and>
   quantitiesNonNegative (resetInventory now d) \<and>
   (quantitiesNonNegative d \<longrightarrow>
      quantitiesNonNegative (run (step_strict p) rs d) \<and>
      quantitiesNonNegative (run step_simple rs d)) \<and>
   quantitiesNonNegative (run (step_strict p) rs (started (seed_strict p) clk)) \<and>
   quantitiesNonNegative (run step_simple rs (started (seed_simple p) clk))"
proof (intro conjI impI)
  assume "quantitiesNonNegative d \<and> 0 < e_quantity e"
  then show "quantitiesNonNegative (snd (entry_strict clk e d))"
    and "quantitiesNonNegative (snd (entry_simple clk e d))"
    by (simp_all add: nonneg_entry)
next
  assume "quantitiesNonNegative d"
  then show "quantitiesNonNegative (snd (issue_strict p clk i d))"
    and "quantitiesNonNegative (snd (issue_simple clk i d))"
    by (simp_all add: nonneg_issue_strict nonneg_issue_simple)
next
  show "quantitiesNonNegative (resetInventory now d)"
    by (simp add: resetInventory_def quantitiesNonNegative_def)
next
  assume "quantitiesNonNegative d"
  then show "quantitiesNonNegative (run (step_strict p) rs d)"
    and "quantitiesNonNegative (run step_simple rs d)"
    by (simp_all add: nonneg_run nonneg_step)
next
  show "quantitiesNonNegative (run (step_strict p) rs (started (seed_strict p) clk))"
    by (simp add: nonneg_run nonneg_step nonneg_started)
next
  show "quantitiesNonNegative (run step_simple rs (started (seed_simple p) clk))"
    by (simp add: nonneg_run nonneg_step nonneg_started)
qed

theorem quantities_never_negative_witness:
  "quantitiesNonNegative seeded \<and>
   quantitiesNonNegative (run (step_strict asciiPlatform)
     [Issue Suc \<lparr>i_materialCode = lit ''TRIM-001'', i_quantity = 30, i_rack = lit ''A1'',
                  i_bin = lit ''01'', i_issuedBy = None\<rparr>,
      Entry Suc \<lparr>e_materialCode = lit ''TRIM-001'', e_quantity = 5, e_rack = lit ''A1'',
                  e_bin = lit ''01'', e_enteredBy = None\<rparr>,
      ResetInventory 9] seeded)"
proof -
  have init: "quantitiesNonNegative seeded"
    by (simp add: quantitiesNonNegative_def seeded_def trim001_def trim002_def buttonX_def)
  show ?thesis
    using init quantities_never_negative
      [where d = seeded and p = asciiPlatform
         and rs = "[Issue Suc \<lparr>i_materialCode = lit ''TRIM-001'', i_quantity = 30,
           i_rack = lit ''A1'', i_bin = lit ''01'', i_issuedBy = None\<rparr>,
         Entry Suc \<lparr>e_materialCode = lit ''TRIM-001'', e_quantity = 5, e_rack = lit ''A1'',
           e_bin = lit ''01'', e_enteredBy = None\<rparr>,
         ResetInventory 9]"]
    by (simp del: run.simps)
qed

section \<open>Searching by rack and bin\<close>














section \<open>A search term with both markers and no hyphen\<close>

lemma split_nonempty: "split s sep \<noteq> []"
  by (induction s) (auto split: list.splits)

lemma length_split: "length (split s sep) = Suc (length (filter (\<lambda>c. c = sep) s))"
proof (induction s)
  case Nil
  show ?case by simp
next
  case (Cons c cs)
  then show ?case
    by (cases "split cs sep") (auto simp: split_nonempty)
qed

lemma at_split_1: "(at (split s sep) 1 = None) = (sep \<notin> set s)"
proof -
  have "(length (filter (\<lambda>c. c = sep) s) = 0) = (sep \<notin> set s)"
    by (induction s) auto
  then show ?thesis
    by (auto simp: at_def length_split)
qed

lemma at_split_0: "at (split s sep) 0 \<noteq> None"
  by (simp add: at_def length_split)

lemma getMaterials_no_search:
  "getMaterials p None d = Inr (orderMaterials p (materials d))"
  "getMaterials p (Some []) d = Inr (orderMaterials p (materials d))"
  by (simp_all add: getMaterials_def)

lemma getMaterials_throws_without_hyphen:
  assumes "includes_str s (lit ''rack:'')" and "includes_str s (lit ''bin:'')"
    and "of_char CHR ''-'' \<notin> set s"
  shows "getMaterials p (Some s) d = Inl TypeError"
proof -
  from assms(1) have "s \<noteq> []"
    by (cases s) (simp_all add: lit_def)
  moreover have "at (split s (of_char CHR ''-'')) 1 = None"
    using assms(3) at_split_1 [of s "of_char CHR ''-''"] by blast
  ultimately show ?thesis
    using assms(1,2) at_split_0 [of s "of_char CHR ''-''"]
    by (auto simp: getMaterials_def Let_def split: option.splits)
qed

text \<open>
  C6. \<open>getMaterials\<close> should return a list of materials for every search term. For the
  term \<open>rack:A1 bin:01\<close>, which holds both markers and no hyphen, the second piece of the
  split is missing and the call throws a \<open>TypeError\<close> instead, on every platform.
\<close>

theorem getMaterials_markers_without_hyphen_throws:
  "getMaterials p (Some (lit ''rack:A1 bin:01'')) seeded = Inl TypeError"
proof -
  have rack_marker: "includes_str (lit ''rack:A1 bin:01'') (lit ''rack:'')"
    and bin_marker: "includes_str (lit ''rack:A1 bin:01'') (lit ''bin:'')"
    by code_simp+
  have no_hyphen: "of_char CHR ''-'' \<notin> set (lit ''rack:A1 bin:01'')"
    by (simp add: lit_def)
  show ?thesis
    by (rule getMaterials_throws_without_hyphen [OF rack_marker bin_marker no_hyphen])
qed

end
